theory Spec2Isabelle
  imports Main "HOL-Library.Word"
begin

section \<open>Section descriptors\<close>

text \<open>
  The model is that of an LP64 host: pointers, \<open>size_t\<close>, \<open>Elf64_Addr\<close> and
  \<open>Elf64_Off\<close> are 64-bit words, and the null pointer is the word \<open>0\<close>.

  \<open>SectionInfo\<close> is declared in \<open>ImageInspection.h\<close>; the sources use its two
  members only: \<open>data\<close>, a pointer into the image, and \<open>size\<close>, a 64-bit byte count
  (\<open>getSectionInfo\<close> fills it with \<open>memcpy(&info.size, section, sizeof(uint64_t))\<close>).
\<close>

type_synonym addr = "64 word"

record SectionInfo =
  data :: addr
  size_b :: "64 word"

text \<open>One call of a drain callback: the arguments \<open>(block.data, block.size)\<close>.\<close>

type_synonym callback_args = "addr \<times> 64 word"

definition args_of :: "SectionInfo \<Rightarrow> callback_args" where
  "args_of block = (data block, size_b block)"

section \<open>ImageInspectionELF.cpp: the registries of dynamically linked images\<close>

text \<open>
  The file-level globals of \<open>ImageInspectionELF.cpp\<close>, the two function-local once
  tokens, and, as the observable effect, the argument lists the two external callbacks
  \<open>addImageProtocolConformanceBlockCallback\<close> and
  \<open>addImageTypeMetadataRecordBlockCallback\<close> have been called with, oldest first.
  A pointer global is \<open>None\<close> (or \<open>False\<close> for the mutex, which has no contents of
  interest) when it is \<open>nullptr\<close>.

  Every function of the file holds the registry's mutex for the whole of its effect on the
  globals, so the calls of different threads are modelled as one sequence of atomic calls.
\<close>

record ImageInspectionELF =
  protocolConformanceOnce :: bool
  protocolConformanceLock :: bool
  protocolConformanceBlocks :: "SectionInfo list option"
  protocolConformanceCalls :: "callback_args list"
  typeMetadataOnce :: bool
  typeMetadataLock :: bool
  typeMetadataRecordBlocks :: "SectionInfo list option"
  typeMetadataCalls :: "callback_args list"

text \<open>
  \<open>AssertionFailed\<close>: the \<open>assert\<close> at the head of the two initialize functions.
  \<open>NullLock\<close>: \<open>ScopedLock guard(*lock)\<close> on a null mutex pointer.
\<close>

datatype failure = AssertionFailed | NullLock

definition init_ELF :: ImageInspectionELF where
  "init_ELF = \<lparr>protocolConformanceOnce = False, protocolConformanceLock = False,
     protocolConformanceBlocks = None, protocolConformanceCalls = [],
     typeMetadataOnce = False, typeMetadataLock = False,
     typeMetadataRecordBlocks = None, typeMetadataCalls = []\<rparr>"

text \<open>The body of the \<open>SWIFT_ONCE_F\<close> lambda runs on the first call only.\<close>

definition protocolConformanceOnceInit :: "ImageInspectionELF \<Rightarrow> ImageInspectionELF" where
  "protocolConformanceOnceInit s =
     (if protocolConformanceOnce s then s
      else s\<lparr>protocolConformanceOnce := True,
             protocolConformanceBlocks := Some [],
             protocolConformanceLock := True\<rparr>)"

definition addImageProtocolConformanceBlock_ELF ::
  "SectionInfo \<Rightarrow> ImageInspectionELF \<Rightarrow> failure + ImageInspectionELF" where
  "addImageProtocolConformanceBlock_ELF block s0 =
     (let s = protocolConformanceOnceInit s0 in
      if size_b block > 0 then
        (if \<not> protocolConformanceLock s then Inl NullLock
         else case protocolConformanceBlocks s of
           None \<Rightarrow> Inr (s\<lparr>protocolConformanceCalls :=
                            protocolConformanceCalls s @ [(data block, size_b block)]\<rparr>)
         | Some blocks \<Rightarrow> Inr (s\<lparr>protocolConformanceBlocks := Some (blocks @ [block])\<rparr>))
      else Inr s)"

definition initializeProtocolConformanceLookup_ELF ::
  "ImageInspectionELF \<Rightarrow> failure + ImageInspectionELF" where
  "initializeProtocolConformanceLookup_ELF s =
     (if \<not> protocolConformanceLock s then Inl AssertionFailed
      else case protocolConformanceBlocks s of
        Some blocks \<Rightarrow>
          Inr (s\<lparr>protocolConformanceCalls :=
                   protocolConformanceCalls s @ map (\<lambda>block. (data block, size_b block)) blocks,
                 protocolConformanceBlocks := None\<rparr>)
      | None \<Rightarrow> Inr s)"

definition typeMetadataOnceInit :: "ImageInspectionELF \<Rightarrow> ImageInspectionELF" where
  "typeMetadataOnceInit s =
     (if typeMetadataOnce s then s
      else s\<lparr>typeMetadataOnce := True,
             typeMetadataRecordBlocks := Some [],
             typeMetadataLock := True\<rparr>)"

definition addImageTypeMetadataRecordBlock_ELF ::
  "SectionInfo \<Rightarrow> ImageInspectionELF \<Rightarrow> failure + ImageInspectionELF" where
  "addImageTypeMetadataRecordBlock_ELF block s0 =
     (let s = typeMetadataOnceInit s0 in
      if size_b block > 0 then
        (if \<not> typeMetadataLock s then Inl NullLock
         else case typeMetadataRecordBlocks s of
           None \<Rightarrow> Inr (s\<lparr>typeMetadataCalls :=
                            typeMetadataCalls s @ [(data block, size_b block)]\<rparr>)
         | Some blocks \<Rightarrow> Inr (s\<lparr>typeMetadataRecordBlocks := Some (blocks @ [block])\<rparr>))
      else Inr s)"

definition initializeTypeMetadataRecordLookup_ELF ::
  "ImageInspectionELF \<Rightarrow> failure + ImageInspectionELF" where
  "initializeTypeMetadataRecordLookup_ELF s =
     (if \<not> typeMetadataLock s then Inl AssertionFailed
      else case typeMetadataRecordBlocks s of
        Some blocks \<Rightarrow>
          Inr (s\<lparr>typeMetadataCalls :=
                   typeMetadataCalls s @ map (\<lambda>block. (data block, size_b block)) blocks,
                 typeMetadataRecordBlocks := None\<rparr>)
      | None \<Rightarrow> Inr s)"

text \<open>
  A history of the process: the calls made into the file, in the order the mutexes
  serialise them. \<open>run_ELF\<close> stops at the first call that fails (the process aborts
  there) and returns the failure together with the state reached, so that the callback
  calls made before the abort stay visible.
\<close>

datatype call =
    AddProtocolConformance SectionInfo
  | InitProtocolConformance
  | AddTypeMetadata SectionInfo
  | InitTypeMetadata

fun step_ELF :: "call \<Rightarrow> ImageInspectionELF \<Rightarrow> failure + ImageInspectionELF" where
  "step_ELF (AddProtocolConformance block) s = addImageProtocolConformanceBlock_ELF block s"
| "step_ELF InitProtocolConformance s = initializeProtocolConformanceLookup_ELF s"
| "step_ELF (AddTypeMetadata block) s = addImageTypeMetadataRecordBlock_ELF block s"
| "step_ELF InitTypeMetadata s = initializeTypeMetadataRecordLookup_ELF s"

fun run_ELF :: "call list \<Rightarrow> ImageInspectionELF \<Rightarrow> failure option \<times> ImageInspectionELF" where
  "run_ELF [] s = (None, s)"
| "run_ELF (c # cs) s =
     (case step_ELF c s of Inl e \<Rightarrow> (Some e, s) | Inr s' \<Rightarrow> run_ELF cs s')"

section \<open>ImageInspectionStatic.cpp: the registries of a static executable\<close>

text \<open>
  Two file-level \<open>SectionInfo\<close> objects of static storage duration (zero-initialised
  at program start), no mutex, no buffer, no test of the size. The two callback logs are
  as above.
\<close>

record ImageInspectionStatic =
  protocolConformances :: SectionInfo
  typeMetadata :: SectionInfo
  protocolConformanceCalls_Static :: "callback_args list"
  typeMetadataCalls_Static :: "callback_args list"

definition init_Static :: ImageInspectionStatic where
  "init_Static = \<lparr>protocolConformances = \<lparr>data = 0, size_b = 0\<rparr>,
     typeMetadata = \<lparr>data = 0, size_b = 0\<rparr>,
     protocolConformanceCalls_Static = [], typeMetadataCalls_Static = []\<rparr>"

definition addImageProtocolConformanceBlock_Static ::
  "SectionInfo \<Rightarrow> ImageInspectionStatic \<Rightarrow> ImageInspectionStatic" where
  "addImageProtocolConformanceBlock_Static block s = s\<lparr>protocolConformances := block\<rparr>"

definition addImageTypeMetadataRecordBlock_Static ::
  "SectionInfo \<Rightarrow> ImageInspectionStatic \<Rightarrow> ImageInspectionStatic" where
  "addImageTypeMetadataRecordBlock_Static block s = s\<lparr>typeMetadata := block\<rparr>"

definition initializeProtocolConformanceLookup_Static ::
  "ImageInspectionStatic \<Rightarrow> ImageInspectionStatic" where
  "initializeProtocolConformanceLookup_Static s =
     s\<lparr>protocolConformanceCalls_Static := protocolConformanceCalls_Static s @
          [(data (protocolConformances s), size_b (protocolConformances s))]\<rparr>"

definition initializeTypeMetadataRecordLookup_Static ::
  "ImageInspectionStatic \<Rightarrow> ImageInspectionStatic" where
  "initializeTypeMetadataRecordLookup_Static s =
     s\<lparr>typeMetadataCalls_Static := typeMetadataCalls_Static s @
          [(data (typeMetadata s), size_b (typeMetadata s))]\<rparr>"

fun step_Static :: "call \<Rightarrow> ImageInspectionStatic \<Rightarrow> ImageInspectionStatic" where
  "step_Static (AddProtocolConformance block) s = addImageProtocolConformanceBlock_Static block s"
| "step_Static InitProtocolConformance s = initializeProtocolConformanceLookup_Static s"
| "step_Static (AddTypeMetadata block) s = addImageTypeMetadataRecordBlock_Static block s"
| "step_Static InitTypeMetadata s = initializeTypeMetadataRecordLookup_Static s"

fun run_Static :: "call list \<Rightarrow> ImageInspectionStatic \<Rightarrow> ImageInspectionStatic" where
  "run_Static [] s = s"
| "run_Static (c # cs) s = run_Static cs (step_Static c s)"

section \<open>Vocabulary of the registry properties\<close>

text \<open>
  The contribute calls of a history, per registry and in order, and the blocks among them
  that carry data.
\<close>

fun is_contribute :: "call \<Rightarrow> bool" where
  "is_contribute (AddProtocolConformance block) = True"
| "is_contribute (AddTypeMetadata block) = True"
| "is_contribute InitProtocolConformance = False"
| "is_contribute InitTypeMetadata = False"

fun contributedProtocolConformance :: "call list \<Rightarrow> SectionInfo list" where
  "contributedProtocolConformance [] = []"
| "contributedProtocolConformance (AddProtocolConformance block # cs) =
     block # contributedProtocolConformance cs"
| "contributedProtocolConformance (c # cs) = contributedProtocolConformance cs"

fun contributedTypeMetadata :: "call list \<Rightarrow> SectionInfo list" where
  "contributedTypeMetadata [] = []"
| "contributedTypeMetadata (AddTypeMetadata block # cs) =
     block # contributedTypeMetadata cs"
| "contributedTypeMetadata (c # cs) = contributedTypeMetadata cs"

definition nonzero_blocks :: "SectionInfo list \<Rightarrow> SectionInfo list" where
  "nonzero_blocks blocks = filter (\<lambda>block. size_b block \<noteq> 0) blocks"

text \<open>The state a history of contribute calls leaves behind at process start.\<close>

definition after_contributions :: "call list \<Rightarrow> ImageInspectionELF" where
  "after_contributions cs =
     \<lparr>protocolConformanceOnce = (contributedProtocolConformance cs \<noteq> []),
      protocolConformanceLock = (contributedProtocolConformance cs \<noteq> []),
      protocolConformanceBlocks =
        (if contributedProtocolConformance cs = [] then None
         else Some (nonzero_blocks (contributedProtocolConformance cs))),
      protocolConformanceCalls = [],
      typeMetadataOnce = (contributedTypeMetadata cs \<noteq> []),
      typeMetadataLock = (contributedTypeMetadata cs \<noteq> []),
      typeMetadataRecordBlocks =
        (if contributedTypeMetadata cs = [] then None
         else Some (nonzero_blocks (contributedTypeMetadata cs))),
      typeMetadataCalls = []\<rparr>"

definition after_contributions_Static :: "call list \<Rightarrow> ImageInspectionStatic" where
  "after_contributions_Static cs =
     \<lparr>protocolConformances = last (\<lparr>data = 0, size_b = 0\<rparr> # contributedProtocolConformance cs),
      typeMetadata = last (\<lparr>data = 0, size_b = 0\<rparr> # contributedTypeMetadata cs),
      protocolConformanceCalls_Static = [], typeMetadataCalls_Static = []\<rparr>"

text \<open>Invariants of the histories of \<open>ImageInspectionELF.cpp\<close>.\<close>

definition nonzero_ELF :: "ImageInspectionELF \<Rightarrow> bool" where
  "nonzero_ELF s \<longleftrightarrow>
     (\<forall>bs. protocolConformanceBlocks s = Some bs \<longrightarrow> list_all (\<lambda>b. size_b b \<noteq> 0) bs) \<and>
     (\<forall>bs. typeMetadataRecordBlocks s = Some bs \<longrightarrow> list_all (\<lambda>b. size_b b \<noteq> 0) bs) \<and>
     list_all (\<lambda>c. snd c \<noteq> 0) (protocolConformanceCalls s) \<and>
     list_all (\<lambda>c. snd c \<noteq> 0) (typeMetadataCalls s)"

definition consistent_ELF :: "ImageInspectionELF \<Rightarrow> bool" where
  "consistent_ELF s \<longleftrightarrow>
     protocolConformanceLock s = protocolConformanceOnce s \<and>
     (\<not> protocolConformanceOnce s \<longrightarrow> protocolConformanceBlocks s = None) \<and>
     typeMetadataLock s = typeMetadataOnce s \<and>
     (\<not> typeMetadataOnce s \<longrightarrow> typeMetadataRecordBlocks s = None)"

definition activated_ProtocolConformance :: "ImageInspectionELF \<Rightarrow> bool" where
  "activated_ProtocolConformance s \<longleftrightarrow>
     protocolConformanceOnce s \<and> protocolConformanceLock s \<and> protocolConformanceBlocks s = None"

definition activated_TypeMetadata :: "ImageInspectionELF \<Rightarrow> bool" where
  "activated_TypeMetadata s \<longleftrightarrow>
     typeMetadataOnce s \<and> typeMetadataLock s \<and> typeMetadataRecordBlocks s = None"

section \<open>StaticBinaryELF.cpp: the ELF parser of a static executable\<close>

subsection \<open>The structures and constants of \<open>elf.h\<close>\<close>

text \<open>
  The parser is compiled for \<open>__LP64__\<close>, so the \<open>Elf_\<close> types are the \<open>Elf64_\<close> ones.
  \<open>elf.h\<close> is a system header; the records below hold the members the parser reads,
  with the widths the header gives them, and the constants have the values of the
  System V ABI. \<open>e_ident\<close> is the array of identification bytes, indexed from 0.
\<close>

record Elf_Ehdr =
  e_ident :: "nat \<Rightarrow> 8 word"
  e_type :: "16 word"
  e_version :: "32 word"
  e_phoff :: "64 word"
  e_shoff :: "64 word"
  e_ehsize :: "16 word"
  e_phentsize :: "16 word"
  e_phnum :: "16 word"
  e_shentsize :: "16 word"
  e_shnum :: "16 word"
  e_shstrndx :: "16 word"

record Elf_Phdr =
  p_type :: "32 word"
  p_vaddr :: "64 word"
  p_memsz :: "64 word"

record Elf_Shdr =
  sh_type :: "32 word"
  sh_offset :: "64 word"
  sh_size :: "64 word"
  sh_entsize :: "64 word"

record Elf_Sym =
  st_name :: "32 word"
  st_info :: "8 word"
  st_value :: "64 word"
  st_size :: "64 word"

definition EI_MAG0 :: nat where "EI_MAG0 = 0"
definition EI_MAG1 :: nat where "EI_MAG1 = 1"
definition EI_MAG2 :: nat where "EI_MAG2 = 2"
definition EI_MAG3 :: nat where "EI_MAG3 = 3"
definition EI_CLASS :: nat where "EI_CLASS = 4"
definition ELFMAG0 :: "8 word" where "ELFMAG0 = 0x7f"
definition ELFMAG1 :: "8 word" where "ELFMAG1 = 0x45"
definition ELFMAG2 :: "8 word" where "ELFMAG2 = 0x4c"
definition ELFMAG3 :: "8 word" where "ELFMAG3 = 0x46"
definition ELFCLASS :: "8 word" where "ELFCLASS = 2"
definition ET_EXEC :: "16 word" where "ET_EXEC = 2"
definition EV_CURRENT :: "32 word" where "EV_CURRENT = 1"
definition PT_LOAD :: "32 word" where "PT_LOAD = 1"
definition PT_INTERP :: "32 word" where "PT_INTERP = 3"
definition SHT_SYMTAB :: "32 word" where "SHT_SYMTAB = 2"
definition SHT_STRTAB :: "32 word" where "SHT_STRTAB = 3"
definition STT_FUNC :: "8 word" where "STT_FUNC = 2"

definition ELF_ST_TYPE :: "8 word \<Rightarrow> 8 word" where
  "ELF_ST_TYPE x = and x 0xf"

definition sizeof_Ehdr :: nat where "sizeof_Ehdr = 64"
definition sizeof_Phdr :: nat where "sizeof_Phdr = 56"
definition sizeof_Shdr :: nat where "sizeof_Shdr = 64"
definition sizeof_Sym :: nat where "sizeof_Sym = 24"

definition MAP_FAILED :: addr where "MAP_FAILED = - 1"

subsection \<open>The host: the file and the system calls\<close>

text \<open>
  What the parser gets from outside. The executable file is given by what a
  \<open>reinterpret_cast\<close> to each of the four structures reads at a byte offset of the
  file (the byte layout itself is that of \<open>elf.h\<close> and plays no part in the parser's
  logic). The system calls are given by their results: whether \<open>open\<close> and
  \<open>fstat\<close> succeed, the size \<open>fstat\<close> reports, the address \<open>mmap\<close> returns, and
  the address \<open>mremap\<close> returns for an old address, an old length and a new length
  (\<open>MREMAP_MAYMOVE\<close> lets the kernel pick a new one). \<open>MAP_FAILED\<close> is the error
  result of both.
\<close>

record host =
  ehdr_at :: "nat \<Rightarrow> Elf_Ehdr"
  phdr_at :: "nat \<Rightarrow> Elf_Phdr"
  shdr_at :: "nat \<Rightarrow> Elf_Shdr"
  sym_at :: "nat \<Rightarrow> Elf_Sym"
  open_ok :: bool
  fstat_ok :: bool
  st_size_of :: "64 word"
  mmap_result :: addr
  mremap_result :: "addr \<Rightarrow> 64 word \<Rightarrow> 64 word \<Rightarrow> addr"

subsection \<open>The parser object and its memory accesses\<close>

text \<open>
  The data members of \<open>struct StaticBinaryELF\<close>, pointers as addresses.
  (\<open>fullPathName\<close> and \<open>executablePathName\<close>, which only name the file, are left
  out.)
\<close>

record StaticBinaryELF =
  mapLength :: "64 word"
  fileSize :: "64 word"
  mapping :: addr
  elfHeader :: addr
  symbolTable :: addr
  stringTable :: addr

definition empty_StaticBinaryELF :: StaticBinaryELF where
  "empty_StaticBinaryELF =
     \<lparr>mapLength = 0, fileSize = 0, mapping = 0, elfHeader = 0, symbolTable = 0,
      stringTable = 0\<rparr>"

text \<open>
  Dereferencing a pointer to a structure of \<open>n\<close> bytes is defined only inside the
  current mapping; the pointer then reads the file at its distance from the mapping's
  base. Anywhere else (the null pointer, an address of a mapping that \<open>mremap\<close> has moved
  away, an address past the mapped length) the access is undefined behaviour, which the
  model reports as the fault \<open>OutOfMapping\<close>. Pages of a mapping that lie wholly beyond
  the end of the file raise \<open>SIGBUS\<close>; as the parser never maps more than the larger of
  the header size and the file size, this happens for the empty file only
  (\<open>BusError\<close>). \<open>DivideByZero\<close> is an integer division by zero.
\<close>

datatype fault = OutOfMapping | BusError | DivideByZero

definition readable :: "StaticBinaryELF \<Rightarrow> addr \<Rightarrow> nat \<Rightarrow> bool" where
  "readable st p n \<longleftrightarrow>
     mapping st \<noteq> 0 \<and> unat (mapping st) \<le> unat p \<and>
     unat p + n \<le> unat (mapping st) + unat (mapLength st)"

definition load :: "(nat \<Rightarrow> 'a) \<Rightarrow> nat \<Rightarrow> StaticBinaryELF \<Rightarrow> addr \<Rightarrow> fault + 'a" where
  "load view n st p =
     (if \<not> readable st p n then Inl OutOfMapping
      else if fileSize st = 0 then Inl BusError
      else Inr (view (unat p - unat (mapping st))))"

text \<open>
  \<open>e_phentsize * e_phnum\<close>: both operands are \<open>uint16_t\<close> and are promoted to
  \<open>int\<close>; the product is then converted to the 64-bit unsigned type of the offset it is
  added to. A product of 2147483648 or more overflows \<open>int\<close>, which the model wraps
  to 32 bits and sign-extends, as the compilers for the host do.
\<close>

definition mul_u16 :: "16 word \<Rightarrow> 16 word \<Rightarrow> 64 word" where
  "mul_u16 a b = scast ((ucast a :: 32 word) * ucast b)"

subsection \<open>The member functions\<close>

definition expandMapping :: "host \<Rightarrow> 64 word \<Rightarrow> StaticBinaryELF \<Rightarrow> bool \<times> StaticBinaryELF" where
  "expandMapping h sz st =
     (if mapping st = 0 \<or> sz > fileSize st then (False, st)
      else if sz > mapLength st then
        (let new_map = mremap_result h (mapping st) (mapLength st) sz in
         if new_map = MAP_FAILED then (False, st)
         else (True, st\<lparr>mapLength := sz, mapping := new_map, elfHeader := new_map\<rparr>))
      else (True, st))"

text \<open>
  \<open>findSection\<close>: the loop over the section header table, as a recursion over the
  indices \<open>0, ..., e_shnum - 1\<close>. The result is the pointer \<open>header\<close> the loop computed
  from the table address taken at entry (\<open>0\<close> for \<open>nullptr\<close>) and the parser
  after the call of \<open>expandMapping\<close>. (The message to \<open>stderr\<close> is left out.)
\<close>

fun findSection_loop ::
  "host \<Rightarrow> 32 word \<Rightarrow> StaticBinaryELF \<Rightarrow> addr \<Rightarrow> nat \<Rightarrow> nat list \<Rightarrow>
     fault + (addr \<times> StaticBinaryELF)" where
  "findSection_loop h sectionType st headers shstrndx [] = Inr (0, st)"
| "findSection_loop h sectionType st headers shstrndx (idx # rest) =
     (if idx = shstrndx then findSection_loop h sectionType st headers shstrndx rest
      else case load (shdr_at h) sizeof_Shdr st (headers + of_nat idx * of_nat sizeof_Shdr) of
        Inl e \<Rightarrow> Inl e
      | Inr header \<Rightarrow>
          if sh_type header = sectionType then
            (if sh_entsize header > 0 \<and> sh_size header mod sh_entsize header \<noteq> 0
             then Inr (0, st)
             else case expandMapping h (sh_offset header + sh_size header) st of
               (False, st') \<Rightarrow> Inr (0, st')
             | (True, st') \<Rightarrow> Inr (headers + of_nat idx * of_nat sizeof_Shdr, st'))
          else findSection_loop h sectionType st headers shstrndx rest)"

definition findSection ::
  "host \<Rightarrow> 32 word \<Rightarrow> StaticBinaryELF \<Rightarrow> fault + (addr \<times> StaticBinaryELF)" where
  "findSection h sectionType st =
     (case load (ehdr_at h) sizeof_Ehdr st (elfHeader st) of
        Inl e \<Rightarrow> Inl e
      | Inr hdr \<Rightarrow>
          findSection_loop h sectionType st (mapping st + e_shoff hdr)
            (unat (e_shstrndx hdr)) [0..<unat (e_shnum hdr)])"

text \<open>The loop of \<open>readElfHeader\<close> over the program headers, looking for a \<open>PT_INTERP\<close> one.\<close>

fun interpreter_loop :: "host \<Rightarrow> StaticBinaryELF \<Rightarrow> addr \<Rightarrow> nat list \<Rightarrow> fault + bool" where
  "interpreter_loop h st headers [] = Inr False"
| "interpreter_loop h st headers (idx # rest) =
     (case load (phdr_at h) sizeof_Phdr st (headers + of_nat idx * of_nat sizeof_Phdr) of
        Inl e \<Rightarrow> Inl e
      | Inr header \<Rightarrow>
          if p_type header = PT_INTERP then Inr True
          else interpreter_loop h st headers rest)"

text \<open>
  \<open>readElfHeader\<close>. Its last three statements, which locate the two sections and
  return \<open>true\<close>, are \<open>readElfHeader_sections\<close>.
\<close>

definition readElfHeader_sections ::
  "host \<Rightarrow> StaticBinaryELF \<Rightarrow> fault + (bool \<times> StaticBinaryELF)" where
  "readElfHeader_sections h st =
     (case findSection h SHT_SYMTAB st of
        Inl e \<Rightarrow> Inl e
      | Inr (symtab, st1) \<Rightarrow>
          (case findSection h SHT_STRTAB (st1\<lparr>symbolTable := symtab\<rparr>) of
             Inl e \<Rightarrow> Inl e
           | Inr (strtab, st2) \<Rightarrow> Inr (True, st2\<lparr>stringTable := strtab\<rparr>)))"

definition readElfHeader :: "host \<Rightarrow> StaticBinaryELF \<Rightarrow> fault + (bool \<times> StaticBinaryELF)" where
  "readElfHeader h st0 =
     (let st = st0\<lparr>elfHeader := mapping st0\<rparr> in
      case load (ehdr_at h) sizeof_Ehdr st (elfHeader st) of
        Inl e \<Rightarrow> Inl e
      | Inr hdr \<Rightarrow>
          if e_ident hdr EI_MAG0 \<noteq> ELFMAG0 \<or> e_ident hdr EI_MAG1 \<noteq> ELFMAG1
             \<or> e_ident hdr EI_MAG2 \<noteq> ELFMAG2 \<or> e_ident hdr EI_MAG3 \<noteq> ELFMAG3
          then Inr (False, st)
          else if e_ident hdr EI_CLASS \<noteq> ELFCLASS \<or> e_type hdr \<noteq> ET_EXEC
             \<or> e_version hdr \<noteq> EV_CURRENT \<or> unat (e_ehsize hdr) \<noteq> sizeof_Ehdr
          then Inr (False, st)
          else
            (case expandMapping h (e_phoff hdr + mul_u16 (e_phentsize hdr) (e_phnum hdr)) st of
               (False, st1) \<Rightarrow> Inr (False, st1)
             | (True, st1) \<Rightarrow>
                 (case load (ehdr_at h) sizeof_Ehdr st1 (elfHeader st1) of
                    Inl e \<Rightarrow> Inl e
                  | Inr hdr1 \<Rightarrow>
                      (case interpreter_loop h st1 (mapping st1 + e_phoff hdr1)
                              [0..<unat (e_phnum hdr1)] of
                         Inl e \<Rightarrow> Inl e
                       | Inr True \<Rightarrow> Inr (False, st1)
                       | Inr False \<Rightarrow>
                           (case expandMapping h
                                   (e_shoff hdr1 + mul_u16 (e_shentsize hdr1) (e_shnum hdr1))
                                   st1 of
                              (False, st2) \<Rightarrow> Inr (False, st2)
                            | (True, st2) \<Rightarrow> readElfHeader_sections h st2)))))"

definition mmapExecutable :: "host \<Rightarrow> StaticBinaryELF \<Rightarrow> fault + (bool \<times> StaticBinaryELF)" where
  "mmapExecutable h st =
     (if \<not> open_ok h then Inr (False, st)
      else if \<not> fstat_ok h then Inr (False, st)
      else if mmap_result h = MAP_FAILED then Inr (False, st)
      else
        (case readElfHeader h
                (st\<lparr>fileSize := st_size_of h, mapping := mmap_result h,
                    mapLength := of_nat sizeof_Ehdr\<rparr>) of
           Inl e \<Rightarrow> Inl e
         | Inr (False, st') \<Rightarrow>
             Inr (False, st'\<lparr>mapping := 0, mapLength := 0, elfHeader := 0,
                              symbolTable := 0, stringTable := 0\<rparr>)
         | Inr (True, st') \<Rightarrow> Inr (True, st')))"

text \<open>The constructor: the member initialisers, then \<open>mmapExecutable\<close>, whose result it drops.\<close>

definition new_StaticBinaryELF :: "host \<Rightarrow> fault + StaticBinaryELF" where
  "new_StaticBinaryELF h =
     (case mmapExecutable h empty_StaticBinaryELF of
        Inl e \<Rightarrow> Inl e
      | Inr (ok, st) \<Rightarrow> Inr st)"

fun getSectionLoadAddress_loop ::
  "host \<Rightarrow> StaticBinaryELF \<Rightarrow> addr \<Rightarrow> addr \<Rightarrow> nat list \<Rightarrow> fault + addr" where
  "getSectionLoadAddress_loop h st searchAddr headers [] = Inr 0"
| "getSectionLoadAddress_loop h st searchAddr headers (idx # rest) =
     (case load (phdr_at h) sizeof_Phdr st (headers + of_nat idx * of_nat sizeof_Phdr) of
        Inl e \<Rightarrow> Inl e
      | Inr header \<Rightarrow>
          if p_type header = PT_LOAD \<and> searchAddr \<ge> p_vaddr header
             \<and> searchAddr \<le> p_vaddr header + p_memsz header
          then Inr (p_vaddr header)
          else getSectionLoadAddress_loop h st searchAddr headers rest)"

definition getSectionLoadAddress :: "host \<Rightarrow> StaticBinaryELF \<Rightarrow> addr \<Rightarrow> fault + addr" where
  "getSectionLoadAddress h st addr =
     (if elfHeader st \<noteq> 0 then
        (case load (ehdr_at h) sizeof_Ehdr st (elfHeader st) of
           Inl e \<Rightarrow> Inl e
         | Inr hdr \<Rightarrow>
             getSectionLoadAddress_loop h st addr (mapping st + e_phoff hdr)
               [0..<unat (e_phnum hdr)])
      else Inr 0)"

fun findSymbol_loop ::
  "host \<Rightarrow> StaticBinaryELF \<Rightarrow> addr \<Rightarrow> addr \<Rightarrow> nat list \<Rightarrow> fault + addr" where
  "findSymbol_loop h st searchAddr symbols [] = Inr 0"
| "findSymbol_loop h st searchAddr symbols (idx # rest) =
     (case load (sym_at h) sizeof_Sym st (symbols + of_nat idx * of_nat sizeof_Sym) of
        Inl e \<Rightarrow> Inl e
      | Inr symbol \<Rightarrow>
          if ELF_ST_TYPE (st_info symbol) = STT_FUNC \<and> searchAddr \<ge> st_value symbol
             \<and> searchAddr < st_value symbol + st_size symbol
          then Inr (symbols + of_nat idx * of_nat sizeof_Sym)
          else findSymbol_loop h st searchAddr symbols rest)"

definition findSymbol :: "host \<Rightarrow> StaticBinaryELF \<Rightarrow> addr \<Rightarrow> fault + addr" where
  "findSymbol h st addr =
     (if symbolTable st \<noteq> 0 then
        (case load (shdr_at h) sizeof_Shdr st (symbolTable st) of
           Inl e \<Rightarrow> Inl e
         | Inr symtab \<Rightarrow>
             if sh_entsize symtab = 0 then Inl DivideByZero
             else findSymbol_loop h st addr (mapping st + sh_offset symtab)
                    [0..<unat (sh_size symtab div sh_entsize symtab)])
      else Inr 0)"

subsection \<open>An example executable\<close>

text \<open>
  A static executable of 8256 bytes: the ELF header; one \<open>PT_LOAD\<close> program header
  at offset 64, for the addresses from \<open>0x400000\<close> to \<open>0x402000\<close>; three section
  headers at offset 128, of which number 0 is the section name table (\<open>e_shstrndx\<close>),
  number 1 the symbol table (two entries at offset 8192) and number 2 the string table
  (16 bytes at offset 8240); the second symbol is a function of 32 bytes at
  \<open>0x401000\<close>. Any other offset reads as zeroes.
\<close>

definition example_ident :: "nat \<Rightarrow> 8 word" where
  "example_ident i =
     (if i = 0 then 0x7f else if i = 1 then 0x45 else if i = 2 then 0x4c
      else if i = 3 then 0x46 else if i = 4 then 2 else 0)"

definition example_ehdr :: Elf_Ehdr where
  "example_ehdr =
     \<lparr>e_ident = example_ident, e_type = 2, e_version = 1, e_phoff = 64, e_shoff = 128,
      e_ehsize = 64, e_phentsize = 56, e_phnum = 1, e_shentsize = 64, e_shnum = 3,
      e_shstrndx = 0\<rparr>"

definition zero_ehdr :: Elf_Ehdr where
  "zero_ehdr =
     \<lparr>e_ident = (\<lambda>i. 0), e_type = 0, e_version = 0, e_phoff = 0, e_shoff = 0,
      e_ehsize = 0, e_phentsize = 0, e_phnum = 0, e_shentsize = 0, e_shnum = 0,
      e_shstrndx = 0\<rparr>"

definition example_phdr_at :: "nat \<Rightarrow> Elf_Phdr" where
  "example_phdr_at off =
     (if off = 64 then \<lparr>p_type = 1, p_vaddr = 0x400000, p_memsz = 0x2000\<rparr>
      else \<lparr>p_type = 0, p_vaddr = 0, p_memsz = 0\<rparr>)"

definition example_shdr_at :: "nat \<Rightarrow> Elf_Shdr" where
  "example_shdr_at off =
     (if off = 128 then \<lparr>sh_type = 3, sh_offset = 320, sh_size = 32, sh_entsize = 0\<rparr>
      else if off = 192 then \<lparr>sh_type = 2, sh_offset = 8192, sh_size = 48, sh_entsize = 24\<rparr>
      else if off = 256 then \<lparr>sh_type = 3, sh_offset = 8240, sh_size = 16, sh_entsize = 0\<rparr>
      else \<lparr>sh_type = 0, sh_offset = 0, sh_size = 0, sh_entsize = 0\<rparr>)"

definition example_sym_at :: "nat \<Rightarrow> Elf_Sym" where
  "example_sym_at off =
     (if off = 8216
      then \<lparr>st_name = 1, st_info = 0x12, st_value = 0x401000, st_size = 0x20\<rparr>
      else \<lparr>st_name = 0, st_info = 0, st_value = 0, st_size = 0\<rparr>)"

text \<open>
  The host of the example: the mapping is made at \<open>0x7f0000000000\<close>. In
  \<open>example_host\<close> the kernel grows it in place; in \<open>moving_host\<close> it moves the
  mapping to \<open>0x7f0000100000\<close> when it has to grow beyond its first page, which is
  what \<open>MREMAP_MAYMOVE\<close> allows.
\<close>

definition example_host :: host where
  "example_host =
     \<lparr>ehdr_at = (\<lambda>off. if off = 0 then example_ehdr else zero_ehdr),
      phdr_at = example_phdr_at, shdr_at = example_shdr_at, sym_at = example_sym_at,
      open_ok = True, fstat_ok = True, st_size_of = 8256,
      mmap_result = 0x7f0000000000,
      mremap_result = (\<lambda>old old_len new_len. old)\<rparr>"

definition moving_host :: host where
  "moving_host =
     example_host\<lparr>mremap_result :=
       (\<lambda>old old_len new_len.
          if old_len \<le> 4096 \<and> 4096 < new_len then 0x7f0000100000 else old)\<rparr>"

text \<open>The parser the constructor builds on \<open>example_host\<close>.\<close>

definition example_parser :: StaticBinaryELF where
  "example_parser =
     \<lparr>mapLength = 8256, fileSize = 8256, mapping = 0x7f0000000000,
      elfHeader = 0x7f0000000000, symbolTable = 0x7f00000000C0,
      stringTable = 0x7f0000000100\<rparr>"

subsection \<open>Vocabulary of the parser properties\<close>

text \<open>What a pointer of the parser reads, when it is readable.\<close>

definition offset_of :: "StaticBinaryELF \<Rightarrow> addr \<Rightarrow> nat" where
  "offset_of st p = unat p - unat (mapping st)"

definition the_header :: "host \<Rightarrow> StaticBinaryELF \<Rightarrow> Elf_Ehdr" where
  "the_header h st = ehdr_at h (offset_of st (elfHeader st))"

definition programHeader_ptr :: "host \<Rightarrow> StaticBinaryELF \<Rightarrow> nat \<Rightarrow> addr" where
  "programHeader_ptr h st idx =
     mapping st + e_phoff (the_header h st) + of_nat idx * of_nat sizeof_Phdr"

definition programHeaders :: "host \<Rightarrow> StaticBinaryELF \<Rightarrow> Elf_Phdr list" where
  "programHeaders h st =
     map (\<lambda>idx. phdr_at h (offset_of st (programHeader_ptr h st idx)))
       [0..<unat (e_phnum (the_header h st))]"

definition programHeaders_readable :: "host \<Rightarrow> StaticBinaryELF \<Rightarrow> bool" where
  "programHeaders_readable h st \<longleftrightarrow>
     fileSize st \<noteq> 0 \<and> readable st (elfHeader st) sizeof_Ehdr \<and>
     list_all (\<lambda>idx. readable st (programHeader_ptr h st idx) sizeof_Phdr)
       [0..<unat (e_phnum (the_header h st))]"

definition in_load_segment :: "addr \<Rightarrow> Elf_Phdr \<Rightarrow> bool" where
  "in_load_segment a header \<longleftrightarrow>
     p_type header = PT_LOAD \<and> p_vaddr header \<le> a \<and> a \<le> p_vaddr header + p_memsz header"

definition the_symbolTable :: "host \<Rightarrow> StaticBinaryELF \<Rightarrow> Elf_Shdr" where
  "the_symbolTable h st = shdr_at h (offset_of st (symbolTable st))"

definition symbol_ptr :: "host \<Rightarrow> StaticBinaryELF \<Rightarrow> nat \<Rightarrow> addr" where
  "symbol_ptr h st idx =
     mapping st + sh_offset (the_symbolTable h st) + of_nat idx * of_nat sizeof_Sym"

definition symbol_count :: "host \<Rightarrow> StaticBinaryELF \<Rightarrow> nat" where
  "symbol_count h st =
     unat (sh_size (the_symbolTable h st) div sh_entsize (the_symbolTable h st))"

definition symbols :: "host \<Rightarrow> StaticBinaryELF \<Rightarrow> (addr \<times> Elf_Sym) list" where
  "symbols h st =
     map (\<lambda>idx. (symbol_ptr h st idx, sym_at h (offset_of st (symbol_ptr h st idx))))
       [0..<symbol_count h st]"

definition symbols_readable :: "host \<Rightarrow> StaticBinaryELF \<Rightarrow> bool" where
  "symbols_readable h st \<longleftrightarrow>
     fileSize st \<noteq> 0 \<and> readable st (symbolTable st) sizeof_Shdr \<and>
     sh_entsize (the_symbolTable h st) \<noteq> 0 \<and>
     list_all (\<lambda>idx. readable st (symbol_ptr h st idx) sizeof_Sym) [0..<symbol_count h st]"

definition function_containing :: "addr \<Rightarrow> Elf_Sym \<Rightarrow> bool" where
  "function_containing a symbol \<longleftrightarrow>
     ELF_ST_TYPE (st_info symbol) = STT_FUNC \<and> st_value symbol \<le> a \<and>
     a < st_value symbol + st_size symbol"

text \<open>
  The section headers as \<open>findSection\<close> reads them. A section is corrupt when its
  entry size is not 0 and its size is not a multiple of it.
\<close>

definition section_ptr :: "host \<Rightarrow> StaticBinaryELF \<Rightarrow> nat \<Rightarrow> addr" where
  "section_ptr h st idx =
     mapping st + e_shoff (the_header h st) + of_nat idx * of_nat sizeof_Shdr"

definition the_section :: "host \<Rightarrow> StaticBinaryELF \<Rightarrow> nat \<Rightarrow> Elf_Shdr" where
  "the_section h st idx = shdr_at h (offset_of st (section_ptr h st idx))"

definition corrupt_section :: "Elf_Shdr \<Rightarrow> bool" where
  "corrupt_section header \<longleftrightarrow>
     sh_entsize header \<noteq> 0 \<and> unat (sh_size header) mod unat (sh_entsize header) \<noteq> 0"

text \<open>
  Section \<open>k\<close> is the first section of type \<open>sectionType\<close> that \<open>findSection\<close>
  looks at (it passes over index \<open>e_shstrndx\<close>), and it is corrupt.
\<close>

definition first_of_type_corrupt ::
  "host \<Rightarrow> StaticBinaryELF \<Rightarrow> 32 word \<Rightarrow> nat \<Rightarrow> bool" where
  "first_of_type_corrupt h st sectionType k \<longleftrightarrow>
     fileSize st \<noteq> 0 \<and> readable st (elfHeader st) sizeof_Ehdr \<and>
     k < unat (e_shnum (the_header h st)) \<and> k \<noteq> unat (e_shstrndx (the_header h st)) \<and>
     list_all (\<lambda>j. j = unat (e_shstrndx (the_header h st)) \<or>
                  (readable st (section_ptr h st j) sizeof_Shdr \<and>
                   sh_type (the_section h st j) \<noteq> sectionType)) [0..<k] \<and>
     readable st (section_ptr h st k) sizeof_Shdr \<and>
     sh_type (the_section h st k) = sectionType \<and> corrupt_section (the_section h st k)"

text \<open>
  The conditions of step 3 and step 4 of the construction, on the file itself: the header
  \<open>ehdr_at h 0\<close> passes the validation; the system calls give a mapping of a file
  that is not empty; the program header table, with entries of the size of
  \<open>Elf_Phdr\<close>, lies within the file; the mapping that covers it (\<open>grown_mapping\<close>,
  moved or not) does not wrap around the address space. \<open>disabled_parser\<close> is the
  parser that is left when parsing is aborted.
\<close>

definition header_accepted :: "Elf_Ehdr \<Rightarrow> bool" where
  "header_accepted hdr \<longleftrightarrow>
     e_ident hdr EI_MAG0 = ELFMAG0 \<and> e_ident hdr EI_MAG1 = ELFMAG1 \<and>
     e_ident hdr EI_MAG2 = ELFMAG2 \<and> e_ident hdr EI_MAG3 = ELFMAG3 \<and>
     e_ident hdr EI_CLASS = ELFCLASS \<and> e_type hdr = ET_EXEC \<and>
     e_version hdr = EV_CURRENT \<and> unat (e_ehsize hdr) = sizeof_Ehdr"

definition host_maps_file :: "host \<Rightarrow> bool" where
  "host_maps_file h \<longleftrightarrow>
     open_ok h \<and> fstat_ok h \<and> mmap_result h \<noteq> MAP_FAILED \<and> mmap_result h \<noteq> 0 \<and>
     st_size_of h \<noteq> 0"

definition file_programHeaders :: "host \<Rightarrow> Elf_Phdr list" where
  "file_programHeaders h =
     map (\<lambda>idx. phdr_at h (unat (e_phoff (ehdr_at h 0)) + idx * sizeof_Phdr))
       [0..<unat (e_phnum (ehdr_at h 0))]"

definition programHeaders_in_file :: "host \<Rightarrow> bool" where
  "programHeaders_in_file h \<longleftrightarrow>
     unat (e_phentsize (ehdr_at h 0)) = sizeof_Phdr \<and>
     unat (e_phoff (ehdr_at h 0)) + sizeof_Phdr * unat (e_phnum (ehdr_at h 0))
       \<le> unat (st_size_of h)"

definition programHeaders_end :: "host \<Rightarrow> 64 word" where
  "programHeaders_end h =
     e_phoff (ehdr_at h 0) + mul_u16 (e_phentsize (ehdr_at h 0)) (e_phnum (ehdr_at h 0))"

definition grown_mapping :: "host \<Rightarrow> addr" where
  "grown_mapping h =
     (if programHeaders_end h > of_nat sizeof_Ehdr
      then mremap_result h (mmap_result h) (of_nat sizeof_Ehdr) (programHeaders_end h)
      else mmap_result h)"

definition addresses_fit :: "host \<Rightarrow> bool" where
  "addresses_fit h \<longleftrightarrow>
     (grown_mapping h \<noteq> MAP_FAILED \<longrightarrow>
        grown_mapping h \<noteq> 0 \<and>
        unat (grown_mapping h) + max sizeof_Ehdr (unat (programHeaders_end h)) \<le> 2 ^ 64)"

definition disabled_parser :: "host \<Rightarrow> StaticBinaryELF" where
  "disabled_parser h = empty_StaticBinaryELF\<lparr>fileSize := st_size_of h\<rparr>"

subsection \<open>Further example executables\<close>

text \<open>
  The example with four section headers, of which number 1 is a corrupt symbol table
  (50 bytes of entries of 24 bytes), number 2 a well-formed symbol table and number 3 the
  string table.
\<close>

definition corrupt_shdr_at :: "nat \<Rightarrow> Elf_Shdr" where
  "corrupt_shdr_at off =
     (if off = 128 then \<lparr>sh_type = 3, sh_offset = 384, sh_size = 32, sh_entsize = 0\<rparr>
      else if off = 192 then \<lparr>sh_type = 2, sh_offset = 4096, sh_size = 50, sh_entsize = 24\<rparr>
      else if off = 256 then \<lparr>sh_type = 2, sh_offset = 8192, sh_size = 48, sh_entsize = 24\<rparr>
      else if off = 320 then \<lparr>sh_type = 3, sh_offset = 8240, sh_size = 16, sh_entsize = 0\<rparr>
      else \<lparr>sh_type = 0, sh_offset = 0, sh_size = 0, sh_entsize = 0\<rparr>)"

definition corrupt_host :: host where
  "corrupt_host =
     example_host\<lparr>ehdr_at := (\<lambda>off. if off = 0 then example_ehdr\<lparr>e_shnum := 4\<rparr> else zero_ehdr),
                  shdr_at := corrupt_shdr_at\<rparr>"

text \<open>
  Two executables the parser rejects: one whose first bytes are not the ELF magic number,
  and a dynamically linked one, with a \<open>PT_LOAD\<close> and a \<open>PT_INTERP\<close> program header.
\<close>

definition bad_magic_host :: host where
  "bad_magic_host =
     example_host\<lparr>ehdr_at :=
       (\<lambda>off. if off = 0 then example_ehdr\<lparr>e_ident := (\<lambda>i. 0x23)\<rparr> else zero_ehdr)\<rparr>"

definition dynamic_phdr_at :: "nat \<Rightarrow> Elf_Phdr" where
  "dynamic_phdr_at off =
     (if off = 64 then \<lparr>p_type = 1, p_vaddr = 0x400000, p_memsz = 0x2000\<rparr>
      else if off = 120 then \<lparr>p_type = 3, p_vaddr = 0x400200, p_memsz = 0x1c\<rparr>
      else \<lparr>p_type = 0, p_vaddr = 0, p_memsz = 0\<rparr>)"

definition dynamic_host :: host where
  "dynamic_host =
     example_host\<lparr>ehdr_at :=
         (\<lambda>off. if off = 0 then example_ehdr\<lparr>e_phnum := 2, e_shoff := 192\<rparr> else zero_ehdr),
       phdr_at := dynamic_phdr_at\<rparr>"


section \<open>The registries of dynamically linked images: proofs\<close>

lemma word_gt0: "(0 < (w::64 word)) = (w \<noteq> 0)"
  by (simp add: word_greater_zero_iff)
lemma addPC_nonzero:
  "nonzero_ELF s \<Longrightarrow> addImageProtocolConformanceBlock_ELF b s = Inr s' \<Longrightarrow> nonzero_ELF s'"
  by (auto simp: nonzero_ELF_def addImageProtocolConformanceBlock_ELF_def
        protocolConformanceOnceInit_def Let_def word_gt0
        split: if_splits option.splits)

lemma initPC_nonzero:
  "nonzero_ELF s \<Longrightarrow> initializeProtocolConformanceLookup_ELF s = Inr s' \<Longrightarrow> nonzero_ELF s'"
  by (fastforce simp: nonzero_ELF_def initializeProtocolConformanceLookup_ELF_def list_all_iff
        split: if_splits option.splits)

lemma addTM_nonzero:
  "nonzero_ELF s \<Longrightarrow> addImageTypeMetadataRecordBlock_ELF b s = Inr s' \<Longrightarrow> nonzero_ELF s'"
  by (auto simp: nonzero_ELF_def addImageTypeMetadataRecordBlock_ELF_def
        typeMetadataOnceInit_def Let_def word_gt0
        split: if_splits option.splits)

lemma initTM_nonzero:
  "nonzero_ELF s \<Longrightarrow> initializeTypeMetadataRecordLookup_ELF s = Inr s' \<Longrightarrow> nonzero_ELF s'"
  by (fastforce simp: nonzero_ELF_def initializeTypeMetadataRecordLookup_ELF_def list_all_iff
        split: if_splits option.splits)

lemma step_ELF_nonzero:
  "nonzero_ELF s \<Longrightarrow> step_ELF c s = Inr s' \<Longrightarrow> nonzero_ELF s'"
  by (cases c) (auto intro: addPC_nonzero initPC_nonzero addTM_nonzero initTM_nonzero)

lemma run_ELF_nonzero:
  "nonzero_ELF s \<Longrightarrow> nonzero_ELF (snd (run_ELF cs s))"
proof (induction cs arbitrary: s)
  case Nil
  then show ?case by simp
next
  case (Cons c cs)
  show ?case
  proof (cases "step_ELF c s")
    case (Inl e)
    with Cons.prems show ?thesis by simp
  next
    case (Inr s')
    with Cons.prems have "nonzero_ELF s'" by (blast intro: step_ELF_nonzero)
    with Cons.IH Inr show ?thesis by simp
  qed
qed

lemma init_ELF_nonzero: "nonzero_ELF init_ELF"
  by (simp add: nonzero_ELF_def init_ELF_def)

lemma contributedProtocolConformance_append:
  "contributedProtocolConformance (xs @ ys) =
     contributedProtocolConformance xs @ contributedProtocolConformance ys"
  by (induction xs rule: contributedProtocolConformance.induct) simp_all

lemma contributedTypeMetadata_append:
  "contributedTypeMetadata (xs @ ys) =
     contributedTypeMetadata xs @ contributedTypeMetadata ys"
  by (induction xs rule: contributedTypeMetadata.induct) simp_all

lemma run_ELF_append:
  "run_ELF (xs @ ys) s =
     (case run_ELF xs s of (None, s') \<Rightarrow> run_ELF ys s' | (Some e, s') \<Rightarrow> (Some e, s'))"
  by (induction xs arbitrary: s) (auto split: sum.splits)

lemma step_after_contributions:
  "is_contribute c \<Longrightarrow>
     step_ELF c (after_contributions cs) = Inr (after_contributions (cs @ [c]))"
  by (cases c)
     (simp_all add: after_contributions_def contributedProtocolConformance_append
        contributedTypeMetadata_append addImageProtocolConformanceBlock_ELF_def
        addImageTypeMetadataRecordBlock_ELF_def protocolConformanceOnceInit_def
        typeMetadataOnceInit_def nonzero_blocks_def Let_def word_gt0)

lemma run_contributions:
  "list_all is_contribute cs \<Longrightarrow> run_ELF cs init_ELF = (None, after_contributions cs)"
proof (induction cs rule: rev_induct)
  case Nil
  show ?case by (simp add: after_contributions_def init_ELF_def)
next
  case (snoc c cs)
  then have "run_ELF cs init_ELF = (None, after_contributions cs)" and "is_contribute c"
    by simp_all
  then show ?case
    by (simp add: run_ELF_append step_after_contributions)
qed

lemma addPC_consistent:
  "consistent_ELF s \<Longrightarrow> addImageProtocolConformanceBlock_ELF b s = Inr s' \<Longrightarrow> consistent_ELF s'"
  by (auto simp: consistent_ELF_def addImageProtocolConformanceBlock_ELF_def
        protocolConformanceOnceInit_def Let_def split: if_splits option.splits)

lemma initPC_consistent:
  "consistent_ELF s \<Longrightarrow> initializeProtocolConformanceLookup_ELF s = Inr s' \<Longrightarrow> consistent_ELF s'"
  by (auto simp: consistent_ELF_def initializeProtocolConformanceLookup_ELF_def
        split: if_splits option.splits)

lemma addTM_consistent:
  "consistent_ELF s \<Longrightarrow> addImageTypeMetadataRecordBlock_ELF b s = Inr s' \<Longrightarrow> consistent_ELF s'"
  by (auto simp: consistent_ELF_def addImageTypeMetadataRecordBlock_ELF_def
        typeMetadataOnceInit_def Let_def split: if_splits option.splits)

lemma initTM_consistent:
  "consistent_ELF s \<Longrightarrow> initializeTypeMetadataRecordLookup_ELF s = Inr s' \<Longrightarrow> consistent_ELF s'"
  by (auto simp: consistent_ELF_def initializeTypeMetadataRecordLookup_ELF_def
        split: if_splits option.splits)

lemma step_ELF_consistent:
  "consistent_ELF s \<Longrightarrow> step_ELF c s = Inr s' \<Longrightarrow> consistent_ELF s'"
  by (cases c) (auto intro: addPC_consistent initPC_consistent addTM_consistent initTM_consistent)

lemma run_ELF_consistent:
  "consistent_ELF s \<Longrightarrow> consistent_ELF (snd (run_ELF cs s))"
proof (induction cs arbitrary: s)
  case Nil
  then show ?case by simp
next
  case (Cons c cs)
  then show ?case
    by (cases "step_ELF c s") (auto dest: step_ELF_consistent)
qed

lemma init_ELF_consistent: "consistent_ELF init_ELF"
  by (simp add: consistent_ELF_def init_ELF_def)

lemma addPC_activated_PC:
  "activated_ProtocolConformance s \<Longrightarrow> addImageProtocolConformanceBlock_ELF b s = Inr s' \<Longrightarrow>
     activated_ProtocolConformance s'"
  by (auto simp: activated_ProtocolConformance_def addImageProtocolConformanceBlock_ELF_def
        protocolConformanceOnceInit_def Let_def split: if_splits)

lemma initPC_activated_PC:
  "activated_ProtocolConformance s \<Longrightarrow> initializeProtocolConformanceLookup_ELF s = Inr s' \<Longrightarrow>
     activated_ProtocolConformance s'"
  by (auto simp: activated_ProtocolConformance_def initializeProtocolConformanceLookup_ELF_def
        split: if_splits)

lemma addTM_activated_PC:
  "activated_ProtocolConformance s \<Longrightarrow> addImageTypeMetadataRecordBlock_ELF b s = Inr s' \<Longrightarrow>
     activated_ProtocolConformance s'"
  by (auto simp: activated_ProtocolConformance_def addImageTypeMetadataRecordBlock_ELF_def
        typeMetadataOnceInit_def Let_def split: if_splits option.splits)

lemma initTM_activated_PC:
  "activated_ProtocolConformance s \<Longrightarrow> initializeTypeMetadataRecordLookup_ELF s = Inr s' \<Longrightarrow>
     activated_ProtocolConformance s'"
  by (auto simp: activated_ProtocolConformance_def initializeTypeMetadataRecordLookup_ELF_def
        split: if_splits option.splits)

lemma step_ELF_activated_PC:
  "activated_ProtocolConformance s \<Longrightarrow> step_ELF c s = Inr s' \<Longrightarrow>
     activated_ProtocolConformance s'"
  by (cases c)
     (auto intro: addPC_activated_PC initPC_activated_PC addTM_activated_PC initTM_activated_PC)

lemma addPC_activated_TM:
  "activated_TypeMetadata s \<Longrightarrow> addImageProtocolConformanceBlock_ELF b s = Inr s' \<Longrightarrow>
     activated_TypeMetadata s'"
  by (auto simp: activated_TypeMetadata_def addImageProtocolConformanceBlock_ELF_def
        protocolConformanceOnceInit_def Let_def split: if_splits option.splits)

lemma initPC_activated_TM:
  "activated_TypeMetadata s \<Longrightarrow> initializeProtocolConformanceLookup_ELF s = Inr s' \<Longrightarrow>
     activated_TypeMetadata s'"
  by (auto simp: activated_TypeMetadata_def initializeProtocolConformanceLookup_ELF_def
        split: if_splits option.splits)

lemma addTM_activated_TM:
  "activated_TypeMetadata s \<Longrightarrow> addImageTypeMetadataRecordBlock_ELF b s = Inr s' \<Longrightarrow>
     activated_TypeMetadata s'"
  by (auto simp: activated_TypeMetadata_def addImageTypeMetadataRecordBlock_ELF_def
        typeMetadataOnceInit_def Let_def split: if_splits)

lemma initTM_activated_TM:
  "activated_TypeMetadata s \<Longrightarrow> initializeTypeMetadataRecordLookup_ELF s = Inr s' \<Longrightarrow>
     activated_TypeMetadata s'"
  by (auto simp: activated_TypeMetadata_def initializeTypeMetadataRecordLookup_ELF_def
        split: if_splits)

lemma step_ELF_activated_TM:
  "activated_TypeMetadata s \<Longrightarrow> step_ELF c s = Inr s' \<Longrightarrow> activated_TypeMetadata s'"
  by (cases c)
     (auto intro: addPC_activated_TM initPC_activated_TM addTM_activated_TM initTM_activated_TM)

lemma run_ELF_activated_PC:
  "activated_ProtocolConformance s \<Longrightarrow> activated_ProtocolConformance (snd (run_ELF cs s))"
proof (induction cs arbitrary: s)
  case Nil
  then show ?case by simp
next
  case (Cons c cs)
  then show ?case
    by (cases "step_ELF c s") (auto dest: step_ELF_activated_PC)
qed

lemma run_ELF_activated_TM:
  "activated_TypeMetadata s \<Longrightarrow> activated_TypeMetadata (snd (run_ELF cs s))"
proof (induction cs arbitrary: s)
  case Nil
  then show ?case by simp
next
  case (Cons c cs)
  then show ?case
    by (cases "step_ELF c s") (auto dest: step_ELF_activated_TM)
qed

lemma initialize_activates_PC:
  "consistent_ELF s \<Longrightarrow> initializeProtocolConformanceLookup_ELF s = Inr s' \<Longrightarrow>
     activated_ProtocolConformance s'"
  by (auto simp: consistent_ELF_def activated_ProtocolConformance_def
        initializeProtocolConformanceLookup_ELF_def split: if_splits option.splits)

lemma initialize_activates_TM:
  "consistent_ELF s \<Longrightarrow> initializeTypeMetadataRecordLookup_ELF s = Inr s' \<Longrightarrow>
     activated_TypeMetadata s'"
  by (auto simp: consistent_ELF_def activated_TypeMetadata_def
        initializeTypeMetadataRecordLookup_ELF_def split: if_splits option.splits)

lemma add_activated_PC:
  "activated_ProtocolConformance t \<Longrightarrow>
     addImageProtocolConformanceBlock_ELF block t =
       Inr (if size_b block \<noteq> 0
            then t\<lparr>protocolConformanceCalls := protocolConformanceCalls t @ [args_of block]\<rparr>
            else t)"
  by (simp add: activated_ProtocolConformance_def addImageProtocolConformanceBlock_ELF_def
        protocolConformanceOnceInit_def Let_def word_gt0 args_of_def)

lemma add_activated_TM:
  "activated_TypeMetadata t \<Longrightarrow>
     addImageTypeMetadataRecordBlock_ELF block t =
       Inr (if size_b block \<noteq> 0
            then t\<lparr>typeMetadataCalls := typeMetadataCalls t @ [args_of block]\<rparr>
            else t)"
  by (simp add: activated_TypeMetadata_def addImageTypeMetadataRecordBlock_ELF_def
        typeMetadataOnceInit_def Let_def word_gt0 args_of_def)

lemma initPC_twice:
  assumes "initializeProtocolConformanceLookup_ELF s = Inr s'"
  shows "initializeProtocolConformanceLookup_ELF s' = Inr s'"
proof (cases "protocolConformanceLock s")
  case False
  with assms show ?thesis
    by (simp add: initializeProtocolConformanceLookup_ELF_def)
next
  case lock: True
  show ?thesis
  proof (cases "protocolConformanceBlocks s")
    case None
    with lock assms have "s' = s"
      by (simp add: initializeProtocolConformanceLookup_ELF_def)
    with lock None show ?thesis
      by (simp add: initializeProtocolConformanceLookup_ELF_def)
  next
    case (Some blocks)
    with lock assms have "s' = s\<lparr>protocolConformanceCalls :=
        protocolConformanceCalls s @ map (\<lambda>block. (data block, size_b block)) blocks,
        protocolConformanceBlocks := None\<rparr>"
      by (simp add: initializeProtocolConformanceLookup_ELF_def)
    with lock show ?thesis
      by (simp add: initializeProtocolConformanceLookup_ELF_def)
  qed
qed

lemma initTM_twice:
  assumes "initializeTypeMetadataRecordLookup_ELF s = Inr s'"
  shows "initializeTypeMetadataRecordLookup_ELF s' = Inr s'"
proof (cases "typeMetadataLock s")
  case False
  with assms show ?thesis
    by (simp add: initializeTypeMetadataRecordLookup_ELF_def)
next
  case lock: True
  show ?thesis
  proof (cases "typeMetadataRecordBlocks s")
    case None
    with lock assms have "s' = s"
      by (simp add: initializeTypeMetadataRecordLookup_ELF_def)
    with lock None show ?thesis
      by (simp add: initializeTypeMetadataRecordLookup_ELF_def)
  next
    case (Some blocks)
    with lock assms have "s' = s\<lparr>typeMetadataCalls :=
        typeMetadataCalls s @ map (\<lambda>block. (data block, size_b block)) blocks,
        typeMetadataRecordBlocks := None\<rparr>"
      by (simp add: initializeTypeMetadataRecordLookup_ELF_def)
    with lock show ?thesis
      by (simp add: initializeTypeMetadataRecordLookup_ELF_def)
  qed
qed

lemma run_Static_append: "run_Static (xs @ ys) s = run_Static ys (run_Static xs s)"
  by (induction xs arbitrary: s) simp_all

lemma run_contributions_Static:
  "list_all is_contribute cs \<Longrightarrow> run_Static cs init_Static = after_contributions_Static cs"
proof (induction cs rule: rev_induct)
  case Nil
  show ?case by (simp add: after_contributions_Static_def init_Static_def)
next
  case (snoc c cs)
  then have ih: "run_Static cs init_Static = after_contributions_Static cs"
    and c: "is_contribute c" by simp_all
  from c show ?case
    by (cases c)
       (simp_all add: run_Static_append ih after_contributions_Static_def
          contributedProtocolConformance_append contributedTypeMetadata_append
          addImageProtocolConformanceBlock_Static_def addImageTypeMetadataRecordBlock_Static_def)
qed

section \<open>The registry claims\<close>

text \<open>
  Claim C1, as amended. In \<open>ImageInspectionELF.cpp\<close>, whatever calls of the four
  functions are made and in whatever order, starting from process start, neither callback
  is ever called with a size of 0: both contribute functions test \<open>block.size > 0\<close>
  before they buffer or forward. The histories that abort are covered too, up to the call
  that fails.
\<close>

theorem ELF_registries_never_forward_size_zero:
  "list_all (\<lambda>c. snd c \<noteq> 0) (protocolConformanceCalls (snd (run_ELF cs init_ELF))) \<and>
   list_all (\<lambda>c. snd c \<noteq> 0) (typeMetadataCalls (snd (run_ELF cs init_ELF)))"
  using run_ELF_nonzero [OF init_ELF_nonzero, of cs] by (simp add: nonzero_ELF_def)

theorem ELF_registries_never_forward_size_zero_witness:
  "protocolConformanceCalls (snd (run_ELF
      [AddProtocolConformance \<lparr>data = 4096, size_b = 0\<rparr>,
       AddProtocolConformance \<lparr>data = 8192, size_b = 24\<rparr>,
       InitProtocolConformance,
       AddProtocolConformance \<lparr>data = 12288, size_b = 0\<rparr>] init_ELF)) = [(8192, 24)] \<and>
   list_all (\<lambda>c. snd c \<noteq> 0) (protocolConformanceCalls (snd (run_ELF
      [AddProtocolConformance \<lparr>data = 4096, size_b = 0\<rparr>,
       AddProtocolConformance \<lparr>data = 8192, size_b = 24\<rparr>,
       InitProtocolConformance,
       AddProtocolConformance \<lparr>data = 12288, size_b = 0\<rparr>] init_ELF)))"
  using ELF_registries_never_forward_size_zero [of
      "[AddProtocolConformance \<lparr>data = 4096, size_b = 0\<rparr>,
        AddProtocolConformance \<lparr>data = 8192, size_b = 24\<rparr>,
        InitProtocolConformance,
        AddProtocolConformance \<lparr>data = 12288, size_b = 0\<rparr>]"]
  by (simp add: init_ELF_def addImageProtocolConformanceBlock_ELF_def
        initializeProtocolConformanceLookup_ELF_def protocolConformanceOnceInit_def Let_def)

text \<open>
  Claim C1 as stated fails in \<open>ImageInspectionStatic.cpp\<close>: a block of size 0 is
  stored like any other, and the initialize function passes the stored block to the
  callback without looking at its size.
\<close>

theorem Static_registry_forwards_size_zero:
  "(4096, 0) \<in> set (protocolConformanceCalls_Static
      (run_Static [AddProtocolConformance \<lparr>data = 4096, size_b = 0\<rparr>, InitProtocolConformance]
         init_Static))"
  by (simp add: init_Static_def addImageProtocolConformanceBlock_Static_def
        initializeProtocolConformanceLookup_Static_def)

text \<open>
  Claim C5. From process start, after any sequence of contribute calls (to either
  registry, interleaved at will), one call of a registry's initialize function makes its
  callback receive exactly the blocks of nonzero size contributed to that registry, in the
  order of contribution, each once. When at least one block was contributed to the
  registry the call succeeds; with none, the callback receives nothing (and the
  \<open>assert\<close> on the mutex pointer fails).
\<close>

theorem ELF_activate_drains_in_contribution_order:
  assumes "list_all is_contribute cs"
  shows "protocolConformanceCalls (snd (run_ELF (cs @ [InitProtocolConformance]) init_ELF)) =
           map args_of (nonzero_blocks (contributedProtocolConformance cs)) \<and>
         typeMetadataCalls (snd (run_ELF (cs @ [InitTypeMetadata]) init_ELF)) =
           map args_of (nonzero_blocks (contributedTypeMetadata cs)) \<and>
         (contributedProtocolConformance cs \<noteq> [] \<longrightarrow>
            fst (run_ELF (cs @ [InitProtocolConformance]) init_ELF) = None) \<and>
         (contributedTypeMetadata cs \<noteq> [] \<longrightarrow>
            fst (run_ELF (cs @ [InitTypeMetadata]) init_ELF) = None)"
  using run_contributions [OF assms]
  by (simp add: run_ELF_append after_contributions_def
        initializeProtocolConformanceLookup_ELF_def initializeTypeMetadataRecordLookup_ELF_def
        nonzero_blocks_def args_of_def)

theorem ELF_activate_drains_in_contribution_order_witness:
  "list_all is_contribute [AddProtocolConformance \<lparr>data = 4096, size_b = 16\<rparr>,
      AddTypeMetadata \<lparr>data = 8192, size_b = 8\<rparr>,
      AddProtocolConformance \<lparr>data = 12288, size_b = 0\<rparr>,
      AddProtocolConformance \<lparr>data = 16384, size_b = 32\<rparr>] \<and>
   protocolConformanceCalls (snd (run_ELF ([AddProtocolConformance \<lparr>data = 4096, size_b = 16\<rparr>,
      AddTypeMetadata \<lparr>data = 8192, size_b = 8\<rparr>,
      AddProtocolConformance \<lparr>data = 12288, size_b = 0\<rparr>,
      AddProtocolConformance \<lparr>data = 16384, size_b = 32\<rparr>] @ [InitProtocolConformance]) init_ELF))
     = [(4096, 16), (16384, 32)] \<and>
   typeMetadataCalls (snd (run_ELF ([AddProtocolConformance \<lparr>data = 4096, size_b = 16\<rparr>,
      AddTypeMetadata \<lparr>data = 8192, size_b = 8\<rparr>,
      AddProtocolConformance \<lparr>data = 12288, size_b = 0\<rparr>,
      AddProtocolConformance \<lparr>data = 16384, size_b = 32\<rparr>] @ [InitTypeMetadata]) init_ELF))
     = [(8192, 8)] \<and>
   fst (run_ELF ([AddProtocolConformance \<lparr>data = 4096, size_b = 16\<rparr>,
      AddTypeMetadata \<lparr>data = 8192, size_b = 8\<rparr>,
      AddProtocolConformance \<lparr>data = 12288, size_b = 0\<rparr>,
      AddProtocolConformance \<lparr>data = 16384, size_b = 32\<rparr>] @ [InitProtocolConformance]) init_ELF)
     = None"
  using ELF_activate_drains_in_contribution_order
    [of "[AddProtocolConformance \<lparr>data = 4096, size_b = 16\<rparr>,
      AddTypeMetadata \<lparr>data = 8192, size_b = 8\<rparr>,
      AddProtocolConformance \<lparr>data = 12288, size_b = 0\<rparr>,
      AddProtocolConformance \<lparr>data = 16384, size_b = 32\<rparr>]"]
  by (simp add: nonzero_blocks_def args_of_def)

text \<open>
  Claim C8. Let a registry's initialize function have succeeded at some point of a history
  that began at process start. Then the registry's buffer pointer is null, it is still
  null after any further calls \<open>cs\<close> of the four functions, and a contribute call made
  then changes nothing but the callback's log, to which it appends the block when its size
  is not 0: the block is forwarded at once and never buffered.
\<close>

theorem ELF_contribute_after_activate_forwards:
  "(initializeProtocolConformanceLookup_ELF (snd (run_ELF pre init_ELF)) = Inr s \<longrightarrow>
      protocolConformanceBlocks s = None \<and>
      protocolConformanceBlocks (snd (run_ELF cs s)) = None \<and>
      addImageProtocolConformanceBlock_ELF block (snd (run_ELF cs s)) =
        Inr (if size_b block \<noteq> 0
             then (snd (run_ELF cs s))\<lparr>protocolConformanceCalls :=
                    protocolConformanceCalls (snd (run_ELF cs s)) @ [args_of block]\<rparr>
             else snd (run_ELF cs s))) \<and>
   (initializeTypeMetadataRecordLookup_ELF (snd (run_ELF pre init_ELF)) = Inr s \<longrightarrow>
      typeMetadataRecordBlocks s = None \<and>
      typeMetadataRecordBlocks (snd (run_ELF cs s)) = None \<and>
      addImageTypeMetadataRecordBlock_ELF block (snd (run_ELF cs s)) =
        Inr (if size_b block \<noteq> 0
             then (snd (run_ELF cs s))\<lparr>typeMetadataCalls :=
                    typeMetadataCalls (snd (run_ELF cs s)) @ [args_of block]\<rparr>
             else snd (run_ELF cs s)))"
proof (intro conjI impI)
  assume a: "initializeProtocolConformanceLookup_ELF (snd (run_ELF pre init_ELF)) = Inr s"
  have "consistent_ELF (snd (run_ELF pre init_ELF))"
    by (rule run_ELF_consistent [OF init_ELF_consistent])
  then have act: "activated_ProtocolConformance s"
    using a by (rule initialize_activates_PC)
  then show "protocolConformanceBlocks s = None"
    by (simp add: activated_ProtocolConformance_def)
  from act have act': "activated_ProtocolConformance (snd (run_ELF cs s))"
    by (rule run_ELF_activated_PC)
  then show "protocolConformanceBlocks (snd (run_ELF cs s)) = None"
    by (simp add: activated_ProtocolConformance_def)
  from act' show "addImageProtocolConformanceBlock_ELF block (snd (run_ELF cs s)) =
        Inr (if size_b block \<noteq> 0
             then (snd (run_ELF cs s))\<lparr>protocolConformanceCalls :=
                    protocolConformanceCalls (snd (run_ELF cs s)) @ [args_of block]\<rparr>
             else snd (run_ELF cs s))"
    by (rule add_activated_PC)
next
  assume a: "initializeTypeMetadataRecordLookup_ELF (snd (run_ELF pre init_ELF)) = Inr s"
  have "consistent_ELF (snd (run_ELF pre init_ELF))"
    by (rule run_ELF_consistent [OF init_ELF_consistent])
  then have act: "activated_TypeMetadata s"
    using a by (rule initialize_activates_TM)
  then show "typeMetadataRecordBlocks s = None"
    by (simp add: activated_TypeMetadata_def)
  from act have act': "activated_TypeMetadata (snd (run_ELF cs s))"
    by (rule run_ELF_activated_TM)
  then show "typeMetadataRecordBlocks (snd (run_ELF cs s)) = None"
    by (simp add: activated_TypeMetadata_def)
  from act' show "addImageTypeMetadataRecordBlock_ELF block (snd (run_ELF cs s)) =
        Inr (if size_b block \<noteq> 0
             then (snd (run_ELF cs s))\<lparr>typeMetadataCalls :=
                    typeMetadataCalls (snd (run_ELF cs s)) @ [args_of block]\<rparr>
             else snd (run_ELF cs s))"
    by (rule add_activated_TM)
qed

theorem ELF_contribute_after_activate_forwards_witness:
  "initializeProtocolConformanceLookup_ELF
     (snd (run_ELF [AddProtocolConformance \<lparr>data = 4096, size_b = 16\<rparr>] init_ELF)) =
     Inr \<lparr>protocolConformanceOnce = True, protocolConformanceLock = True,
          protocolConformanceBlocks = None, protocolConformanceCalls = [(4096, 16)],
          typeMetadataOnce = False, typeMetadataLock = False,
          typeMetadataRecordBlocks = None, typeMetadataCalls = []\<rparr> \<and>
   addImageProtocolConformanceBlock_ELF \<lparr>data = 12288, size_b = 8\<rparr>
     (snd (run_ELF [AddProtocolConformance \<lparr>data = 8192, size_b = 0\<rparr>]
        \<lparr>protocolConformanceOnce = True, protocolConformanceLock = True,
          protocolConformanceBlocks = None, protocolConformanceCalls = [(4096, 16)],
          typeMetadataOnce = False, typeMetadataLock = False,
          typeMetadataRecordBlocks = None, typeMetadataCalls = []\<rparr>)) =
     Inr \<lparr>protocolConformanceOnce = True, protocolConformanceLock = True,
          protocolConformanceBlocks = None,
          protocolConformanceCalls = [(4096, 16), (12288, 8)],
          typeMetadataOnce = False, typeMetadataLock = False,
          typeMetadataRecordBlocks = None, typeMetadataCalls = []\<rparr> \<and>
   initializeTypeMetadataRecordLookup_ELF
     (snd (run_ELF [AddTypeMetadata \<lparr>data = 4096, size_b = 16\<rparr>] init_ELF)) =
     Inr \<lparr>protocolConformanceOnce = False, protocolConformanceLock = False,
          protocolConformanceBlocks = None, protocolConformanceCalls = [],
          typeMetadataOnce = True, typeMetadataLock = True,
          typeMetadataRecordBlocks = None, typeMetadataCalls = [(4096, 16)]\<rparr> \<and>
   typeMetadataRecordBlocks (snd (run_ELF [AddTypeMetadata \<lparr>data = 8192, size_b = 24\<rparr>]
        \<lparr>protocolConformanceOnce = False, protocolConformanceLock = False,
          protocolConformanceBlocks = None, protocolConformanceCalls = [],
          typeMetadataOnce = True, typeMetadataLock = True,
          typeMetadataRecordBlocks = None, typeMetadataCalls = [(4096, 16)]\<rparr>)) = None"
proof -
  have pc: "initializeProtocolConformanceLookup_ELF
     (snd (run_ELF [AddProtocolConformance \<lparr>data = 4096, size_b = 16\<rparr>] init_ELF)) =
     Inr \<lparr>protocolConformanceOnce = True, protocolConformanceLock = True,
          protocolConformanceBlocks = None, protocolConformanceCalls = [(4096, 16)],
          typeMetadataOnce = False, typeMetadataLock = False,
          typeMetadataRecordBlocks = None, typeMetadataCalls = []\<rparr>"
    by (simp add: init_ELF_def addImageProtocolConformanceBlock_ELF_def
          initializeProtocolConformanceLookup_ELF_def protocolConformanceOnceInit_def Let_def)
  have tm: "initializeTypeMetadataRecordLookup_ELF
     (snd (run_ELF [AddTypeMetadata \<lparr>data = 4096, size_b = 16\<rparr>] init_ELF)) =
     Inr \<lparr>protocolConformanceOnce = False, protocolConformanceLock = False,
          protocolConformanceBlocks = None, protocolConformanceCalls = [],
          typeMetadataOnce = True, typeMetadataLock = True,
          typeMetadataRecordBlocks = None, typeMetadataCalls = [(4096, 16)]\<rparr>"
    by (simp add: init_ELF_def addImageTypeMetadataRecordBlock_ELF_def
          initializeTypeMetadataRecordLookup_ELF_def typeMetadataOnceInit_def Let_def)
  have run1: "snd (run_ELF [AddProtocolConformance \<lparr>data = 8192, size_b = 0\<rparr>]
        \<lparr>protocolConformanceOnce = True, protocolConformanceLock = True,
          protocolConformanceBlocks = None, protocolConformanceCalls = [(4096, 16)],
          typeMetadataOnce = False, typeMetadataLock = False,
          typeMetadataRecordBlocks = None, typeMetadataCalls = []\<rparr>) =
        \<lparr>protocolConformanceOnce = True, protocolConformanceLock = True,
          protocolConformanceBlocks = None, protocolConformanceCalls = [(4096, 16)],
          typeMetadataOnce = False, typeMetadataLock = False,
          typeMetadataRecordBlocks = None, typeMetadataCalls = []\<rparr>"
    by (simp add: addImageProtocolConformanceBlock_ELF_def protocolConformanceOnceInit_def)
  from ELF_contribute_after_activate_forwards
         [where pre = "[AddProtocolConformance \<lparr>data = 4096, size_b = 16\<rparr>]"
            and cs = "[AddProtocolConformance \<lparr>data = 8192, size_b = 0\<rparr>]"
            and block = "\<lparr>data = 12288, size_b = 8\<rparr>", THEN conjunct1, THEN mp, OF pc]
  have c1: "addImageProtocolConformanceBlock_ELF \<lparr>data = 12288, size_b = 8\<rparr>
     (snd (run_ELF [AddProtocolConformance \<lparr>data = 8192, size_b = 0\<rparr>]
        \<lparr>protocolConformanceOnce = True, protocolConformanceLock = True,
          protocolConformanceBlocks = None, protocolConformanceCalls = [(4096, 16)],
          typeMetadataOnce = False, typeMetadataLock = False,
          typeMetadataRecordBlocks = None, typeMetadataCalls = []\<rparr>)) =
     Inr \<lparr>protocolConformanceOnce = True, protocolConformanceLock = True,
          protocolConformanceBlocks = None,
          protocolConformanceCalls = [(4096, 16), (12288, 8)],
          typeMetadataOnce = False, typeMetadataLock = False,
          typeMetadataRecordBlocks = None, typeMetadataCalls = []\<rparr>"
    unfolding run1 by (simp add: args_of_def)
  from ELF_contribute_after_activate_forwards
         [where pre = "[AddTypeMetadata \<lparr>data = 4096, size_b = 16\<rparr>]"
            and cs = "[AddTypeMetadata \<lparr>data = 8192, size_b = 24\<rparr>]",
          THEN conjunct2, THEN mp, OF tm]
  have c2: "typeMetadataRecordBlocks (snd (run_ELF [AddTypeMetadata \<lparr>data = 8192, size_b = 24\<rparr>]
        \<lparr>protocolConformanceOnce = False, protocolConformanceLock = False,
          protocolConformanceBlocks = None, protocolConformanceCalls = [],
          typeMetadataOnce = True, typeMetadataLock = True,
          typeMetadataRecordBlocks = None, typeMetadataCalls = [(4096, 16)]\<rparr>)) = None"
    by blast
  from pc c1 tm c2 show ?thesis by blast
qed

text \<open>
  Claim C9. A second call of an initialize function, after one that succeeded, returns
  the state it was given: no callback call is added to the log and no global changes.
\<close>

theorem ELF_second_activate_is_noop:
  "(initializeProtocolConformanceLookup_ELF s = Inr s' \<longrightarrow>
      initializeProtocolConformanceLookup_ELF s' = Inr s') \<and>
   (initializeTypeMetadataRecordLookup_ELF s = Inr s' \<longrightarrow>
      initializeTypeMetadataRecordLookup_ELF s' = Inr s')"
  using initPC_twice initTM_twice by blast

theorem ELF_second_activate_is_noop_witness:
  "initializeProtocolConformanceLookup_ELF
     \<lparr>protocolConformanceOnce = True, protocolConformanceLock = True,
      protocolConformanceBlocks = Some [\<lparr>data = 4096, size_b = 16\<rparr>],
      protocolConformanceCalls = [],
      typeMetadataOnce = True, typeMetadataLock = True,
      typeMetadataRecordBlocks = None, typeMetadataCalls = []\<rparr> =
   Inr \<lparr>protocolConformanceOnce = True, protocolConformanceLock = True,
      protocolConformanceBlocks = None, protocolConformanceCalls = [(4096, 16)],
      typeMetadataOnce = True, typeMetadataLock = True,
      typeMetadataRecordBlocks = None, typeMetadataCalls = []\<rparr> \<and>
   initializeProtocolConformanceLookup_ELF
     \<lparr>protocolConformanceOnce = True, protocolConformanceLock = True,
      protocolConformanceBlocks = None, protocolConformanceCalls = [(4096, 16)],
      typeMetadataOnce = True, typeMetadataLock = True,
      typeMetadataRecordBlocks = None, typeMetadataCalls = []\<rparr> =
   Inr \<lparr>protocolConformanceOnce = True, protocolConformanceLock = True,
      protocolConformanceBlocks = None, protocolConformanceCalls = [(4096, 16)],
      typeMetadataOnce = True, typeMetadataLock = True,
      typeMetadataRecordBlocks = None, typeMetadataCalls = []\<rparr> \<and>
   initializeTypeMetadataRecordLookup_ELF
     \<lparr>protocolConformanceOnce = True, protocolConformanceLock = True,
      protocolConformanceBlocks = None, protocolConformanceCalls = [(4096, 16)],
      typeMetadataOnce = True, typeMetadataLock = True,
      typeMetadataRecordBlocks = None, typeMetadataCalls = []\<rparr> =
   Inr \<lparr>protocolConformanceOnce = True, protocolConformanceLock = True,
      protocolConformanceBlocks = None, protocolConformanceCalls = [(4096, 16)],
      typeMetadataOnce = True, typeMetadataLock = True,
      typeMetadataRecordBlocks = None, typeMetadataCalls = []\<rparr>"
proof -
  have first: "initializeProtocolConformanceLookup_ELF
     \<lparr>protocolConformanceOnce = True, protocolConformanceLock = True,
      protocolConformanceBlocks = Some [\<lparr>data = 4096, size_b = 16\<rparr>],
      protocolConformanceCalls = [],
      typeMetadataOnce = True, typeMetadataLock = True,
      typeMetadataRecordBlocks = None, typeMetadataCalls = []\<rparr> =
   Inr \<lparr>protocolConformanceOnce = True, protocolConformanceLock = True,
      protocolConformanceBlocks = None, protocolConformanceCalls = [(4096, 16)],
      typeMetadataOnce = True, typeMetadataLock = True,
      typeMetadataRecordBlocks = None, typeMetadataCalls = []\<rparr>"
    by (simp add: initializeProtocolConformanceLookup_ELF_def)
  have other: "initializeTypeMetadataRecordLookup_ELF
     \<lparr>protocolConformanceOnce = True, protocolConformanceLock = True,
      protocolConformanceBlocks = None, protocolConformanceCalls = [(4096, 16)],
      typeMetadataOnce = True, typeMetadataLock = True,
      typeMetadataRecordBlocks = None, typeMetadataCalls = []\<rparr> =
   Inr \<lparr>protocolConformanceOnce = True, protocolConformanceLock = True,
      protocolConformanceBlocks = None, protocolConformanceCalls = [(4096, 16)],
      typeMetadataOnce = True, typeMetadataLock = True,
      typeMetadataRecordBlocks = None, typeMetadataCalls = []\<rparr>"
    by (simp add: initializeTypeMetadataRecordLookup_ELF_def)
  from first other ELF_second_activate_is_noop [THEN conjunct1, rule_format, OF first]
    ELF_second_activate_is_noop [THEN conjunct2, rule_format, OF other]
  show ?thesis by blast
qed

text \<open>
  Claim C10. In \<open>ImageInspectionStatic.cpp\<close>, after any sequence of contribute
  calls from program start, the two initialize functions call their callbacks once each:
  with the block contributed last to that registry, or with the null pointer and size 0
  when none was.
\<close>

theorem Static_registry_last_writer_wins:
  assumes "list_all is_contribute cs"
  shows "protocolConformanceCalls_Static
           (run_Static (cs @ [InitProtocolConformance, InitTypeMetadata]) init_Static) =
         [if contributedProtocolConformance cs = [] then (0, 0)
          else args_of (last (contributedProtocolConformance cs))] \<and>
       typeMetadataCalls_Static
           (run_Static (cs @ [InitProtocolConformance, InitTypeMetadata]) init_Static) =
         [if contributedTypeMetadata cs = [] then (0, 0)
          else args_of (last (contributedTypeMetadata cs))]"
  using run_contributions_Static [OF assms]
  by (simp add: run_Static_append after_contributions_Static_def args_of_def
        initializeProtocolConformanceLookup_Static_def
        initializeTypeMetadataRecordLookup_Static_def)

theorem Static_registry_last_writer_wins_witness:
  "list_all is_contribute [AddProtocolConformance \<lparr>data = 4096, size_b = 16\<rparr>,
      AddProtocolConformance \<lparr>data = 8192, size_b = 48\<rparr>] \<and>
   protocolConformanceCalls_Static
     (run_Static ([AddProtocolConformance \<lparr>data = 4096, size_b = 16\<rparr>,
        AddProtocolConformance \<lparr>data = 8192, size_b = 48\<rparr>] @
        [InitProtocolConformance, InitTypeMetadata]) init_Static) = [(8192, 48)] \<and>
   typeMetadataCalls_Static
     (run_Static ([AddProtocolConformance \<lparr>data = 4096, size_b = 16\<rparr>,
        AddProtocolConformance \<lparr>data = 8192, size_b = 48\<rparr>] @
        [InitProtocolConformance, InitTypeMetadata]) init_Static) = [(0, 0)]"
  using Static_registry_last_writer_wins
    [of "[AddProtocolConformance \<lparr>data = 4096, size_b = 16\<rparr>,
          AddProtocolConformance \<lparr>data = 8192, size_b = 48\<rparr>]"]
  by (simp add: args_of_def)

section \<open>The ELF parser: proofs\<close>

lemmas elf_consts = EI_MAG0_def EI_MAG1_def EI_MAG2_def EI_MAG3_def EI_CLASS_def
  ELFMAG0_def ELFMAG1_def ELFMAG2_def ELFMAG3_def ELFCLASS_def ET_EXEC_def EV_CURRENT_def
  PT_LOAD_def PT_INTERP_def SHT_SYMTAB_def SHT_STRTAB_def STT_FUNC_def ELF_ST_TYPE_def
  sizeof_Ehdr_def sizeof_Phdr_def sizeof_Shdr_def sizeof_Sym_def MAP_FAILED_def

lemmas example_defs = example_host_def example_ehdr_def example_ident_def
  example_phdr_at_def example_shdr_at_def example_sym_at_def example_parser_def

lemmas view_defs = offset_of_def the_header_def programHeader_ptr_def programHeaders_def
  programHeaders_readable_def the_symbolTable_def symbol_ptr_def symbol_count_def
  symbols_def symbols_readable_def readable_def

lemma upt_small: "[0..<1] = [0]" "[0..<2] = [0, 1]" "[0..<3] = [0, 1, 2]"
  by (simp_all add: upt_rec)

lemma example_programHeaders_readable:
  "elfHeader example_parser \<noteq> 0 \<and> programHeaders_readable example_host example_parser"
  by (simp add: view_defs example_defs elf_consts upt_small)

lemma example_programHeaders:
  "programHeaders example_host example_parser =
     [\<lparr>p_type = 1, p_vaddr = 0x400000, p_memsz = 0x2000\<rparr>]"
  by (simp add: view_defs example_defs elf_consts upt_small)

lemma load_readable:
  "readable st p n \<Longrightarrow> fileSize st \<noteq> 0 \<Longrightarrow> load view n st p = Inr (view (offset_of st p))"
  by (simp add: load_def offset_of_def)

lemma getSectionLoadAddress_loop_find:
  assumes "fileSize st \<noteq> 0"
    and "list_all (\<lambda>idx. readable st (headers + of_nat idx * of_nat sizeof_Phdr) sizeof_Phdr) idxs"
  shows "getSectionLoadAddress_loop h st a headers idxs =
     Inr (case find (in_load_segment a)
                 (map (\<lambda>idx. phdr_at h (offset_of st (headers + of_nat idx * of_nat sizeof_Phdr)))
                    idxs) of
            None \<Rightarrow> 0 | Some header \<Rightarrow> p_vaddr header)"
  using assms
  by (induction idxs) (simp_all add: load_readable in_load_segment_def)

lemma findSymbol_loop_find:
  assumes "fileSize st \<noteq> 0"
    and "list_all (\<lambda>idx. readable st (syms + of_nat idx * of_nat sizeof_Sym) sizeof_Sym) idxs"
  shows "findSymbol_loop h st a syms idxs =
     Inr (case find (\<lambda>entry. function_containing a (snd entry))
                 (map (\<lambda>idx. (syms + of_nat idx * of_nat sizeof_Sym,
                               sym_at h (offset_of st (syms + of_nat idx * of_nat sizeof_Sym))))
                    idxs) of
            None \<Rightarrow> 0 | Some entry \<Rightarrow> fst entry)"
  using assms
  by (induction idxs) (simp_all add: load_readable function_containing_def)

lemma example_symbols_readable:
  "symbolTable example_parser \<noteq> 0 \<and> symbols_readable example_host example_parser"
  by (simp add: view_defs example_defs elf_consts upt_small)

lemma example_symbols:
  "symbols example_host example_parser =
     [(0x7f0000002000, \<lparr>st_name = 0, st_info = 0, st_value = 0, st_size = 0\<rparr>),
      (0x7f0000002018, \<lparr>st_name = 1, st_info = 0x12, st_value = 0x401000, st_size = 0x20\<rparr>)]"
  by (simp add: view_defs example_defs elf_consts upt_small)

lemma expandMapping_within_file:
  assumes "expandMapping h sz st = (ok, st')"
  shows "fileSize st' = fileSize st"
    and "fileSize st < sz \<Longrightarrow> \<not> ok \<and> st' = st"
    and "mapLength st \<le> mapLength st'"
    and "mapLength st' = mapLength st \<or> (mapLength st' = sz \<and> sz \<le> fileSize st)"
    and "\<not> ok \<Longrightarrow> st' = st"
  using assms
  by (auto simp: expandMapping_def Let_def split: if_splits)

lemma example_constructed: "new_StaticBinaryELF example_host = Inr example_parser"
  by (simp add: new_StaticBinaryELF_def mmapExecutable_def readElfHeader_def
        readElfHeader_sections_def findSection_def expandMapping_def load_def readable_def
        mul_u16_def empty_StaticBinaryELF_def elf_consts example_defs Let_def upt_small)


lemma unat_ucast_16_32: "unat (ucast (a :: 16 word) :: 32 word) = unat a"
proof -
  have "unat a < 2 ^ 16" using unsigned_less [of a] by simp
  then have "unat a < 2 ^ 32" by simp
  then show ?thesis
    by (simp add: unsigned_ucast_eq take_bit_nat_eq_self)
qed

lemma unat_ucast_32_64: "unat (ucast (a :: 32 word) :: 64 word) = unat a"
proof -
  have "unat a < 2 ^ 32" using unsigned_less [of a] by simp
  then have "unat a < 2 ^ 64" by simp
  then show ?thesis
    by (simp add: unsigned_ucast_eq take_bit_nat_eq_self)
qed

lemma sint_small:
  assumes "uint (p :: 32 word) < 2 ^ 31"
  shows "sint p = uint p"
proof -
  have "- (2 ^ 31) \<le> (0 :: int)" by simp
  also have "0 \<le> uint p" by (rule uint_ge_0)
  finally have "- (2 ^ 31) \<le> uint p" .
  with assms show ?thesis
    by (simp add: sint_uint signed_take_bit_int_eq_self_iff)
qed

lemma scast_small: "sint (p :: 32 word) = uint p \<Longrightarrow> (scast p :: 64 word) = ucast p"
  by (metis of_int_uint scast_eq)

lemma unat_mul_u16:
  assumes "unat a * unat b < 2 ^ 31"
  shows "unat (mul_u16 a b) = unat a * unat b"
proof -
  let ?p = "(ucast a :: 32 word) * ucast b"
  have "unat a * unat b < 2 ^ 32" using assms by simp
  then have p: "unat ?p = unat a * unat b"
    by (simp add: unat_mult_lem [THEN iffD1] unat_ucast_16_32)
  have "int (unat ?p) < 2 ^ 31"
    using assms unfolding p by (metis of_nat_less_numeral_power_cancel_iff)
  then have "uint ?p < 2 ^ 31"
    by simp
  then have "(scast ?p :: 64 word) = ucast ?p"
    by (intro scast_small sint_small)
  then show ?thesis
    using p by (simp add: mul_u16_def unat_ucast_32_64)
qed

lemma unat_ptr:
  assumes "unat (base :: 64 word) + unat (off :: 64 word) + idx * sz < 2 ^ 64"
  shows "unat (base + off + of_nat idx * of_nat sz) = unat base + unat off + idx * sz"
proof -
  have 1: "unat (base + off) = unat base + unat off"
    using assms by (simp add: unat_add_lem [THEN iffD1])
  have "idx * sz < 2 ^ 64" using assms by simp
  then have 2: "unat (of_nat idx * of_nat sz :: 64 word) = idx * sz"
    by (simp add: unat_of_nat flip: of_nat_mult)
  from assms 1 2 show ?thesis
    by (simp add: unat_add_lem [THEN iffD1])
qed


lemma corrupt_section_iff:
  "corrupt_section header \<longleftrightarrow>
     sh_entsize header > 0 \<and> sh_size header mod sh_entsize header \<noteq> 0"
proof -
  have "(sh_size header mod sh_entsize header = 0) =
        (unat (sh_size header) mod unat (sh_entsize header) = 0)"
    by (simp add: unat_eq_0 [symmetric] unat_mod del: unat_eq_0)
  then show ?thesis
    by (simp add: corrupt_section_def word_greater_zero_iff)
qed

lemma findSection_loop_corrupt:
  assumes "fileSize st \<noteq> 0"
    and "list_all (\<lambda>j. j = shstrndx \<or>
            (readable st (headers + of_nat j * of_nat sizeof_Shdr) sizeof_Shdr \<and>
             sh_type (shdr_at h (offset_of st (headers + of_nat j * of_nat sizeof_Shdr)))
               \<noteq> sectionType)) pre"
    and "k \<noteq> shstrndx"
    and "readable st (headers + of_nat k * of_nat sizeof_Shdr) sizeof_Shdr"
    and "sh_type (shdr_at h (offset_of st (headers + of_nat k * of_nat sizeof_Shdr))) = sectionType"
    and "corrupt_section (shdr_at h (offset_of st (headers + of_nat k * of_nat sizeof_Shdr)))"
  shows "findSection_loop h sectionType st headers shstrndx (pre @ k # post) = Inr (0, st)"
  using assms
proof (induction pre)
  case Nil
  then show ?case
    by (simp add: load_readable corrupt_section_iff)
next
  case (Cons j pre)
  then show ?case
    by (auto simp: load_readable)
qed

lemma upt_split: "k < n \<Longrightarrow> [0..<n] = [0..<k] @ k # [Suc k..<n]"
proof -
  assume k: "k < n"
  have "[0..<k + (n - k)] = [0..<k] @ [k..<k + (n - k)]"
    by (rule upt_add_eq_append) simp
  with k show ?thesis
    by (simp add: upt_conv_Cons)
qed

lemma findSection_corrupt:
  assumes "first_of_type_corrupt h st sectionType k"
  shows "findSection h sectionType st = Inr (0, st)"
proof -
  from assms have hdr: "load (ehdr_at h) sizeof_Ehdr st (elfHeader st) = Inr (the_header h st)"
    by (simp add: first_of_type_corrupt_def load_readable the_header_def)
  from assms have k: "k < unat (e_shnum (the_header h st))"
    by (simp add: first_of_type_corrupt_def)
  from assms have "findSection_loop h sectionType st (mapping st + e_shoff (the_header h st))
      (unat (e_shstrndx (the_header h st)))
      ([0..<k] @ k # [Suc k..<unat (e_shnum (the_header h st))]) = Inr (0, st)"
    unfolding first_of_type_corrupt_def the_section_def section_ptr_def
    by (intro findSection_loop_corrupt) simp_all
  with hdr upt_split [OF k] show ?thesis
    by (simp add: findSection_def)
qed

lemmas corrupt_defs = corrupt_host_def corrupt_shdr_at_def

lemma upt_4: "[0..<4] = [0, 1, 2, 3]"
  by (simp add: upt_rec)

lemma zeroed_eq:
  "fileSize st = S \<Longrightarrow>
     st\<lparr>mapping := 0, mapLength := 0, elfHeader := 0, symbolTable := 0, stringTable := 0\<rparr> =
     empty_StaticBinaryELF\<lparr>fileSize := S\<rparr>"
  by (cases st) (simp add: empty_StaticBinaryELF_def)

lemma failed_mmapExecutable_disabled:
  assumes "mmapExecutable h empty_StaticBinaryELF = Inr (False, st)"
  shows "mapping st = 0 \<and> elfHeader st = 0 \<and> symbolTable st = 0 \<and> stringTable st = 0"
  using assms
  by (auto simp: mmapExecutable_def empty_StaticBinaryELF_def
        split: if_splits sum.splits prod.splits bool.splits)

lemma disabled_queries:
  "elfHeader st = 0 \<Longrightarrow> getSectionLoadAddress h st a = Inr 0"
  "symbolTable st = 0 \<Longrightarrow> findSymbol h st a = Inr 0"
  by (simp_all add: getSectionLoadAddress_def findSymbol_def)

lemma interpreter_loop_list_ex:
  assumes "fileSize st \<noteq> 0"
    and "list_all (\<lambda>idx. readable st (headers + of_nat idx * of_nat sizeof_Phdr) sizeof_Phdr) idxs"
  shows "interpreter_loop h st headers idxs =
     Inr (list_ex (\<lambda>idx. p_type (phdr_at h
             (offset_of st (headers + of_nat idx * of_nat sizeof_Phdr))) = PT_INTERP) idxs)"
  using assms
  by (induction idxs) (simp_all add: load_readable)

lemma first_load:
  assumes "host_maps_file h"
  shows "load (ehdr_at h) sizeof_Ehdr
           (empty_StaticBinaryELF\<lparr>fileSize := st_size_of h, mapping := mmap_result h,
               mapLength := of_nat sizeof_Ehdr, elfHeader := mmap_result h\<rparr>)
           (mmap_result h) = Inr (ehdr_at h 0)"
  using assms
  by (simp add: load_def readable_def host_maps_file_def sizeof_Ehdr_def)

lemma invalid_header_disables:
  assumes "host_maps_file h" and "\<not> header_accepted (ehdr_at h 0)"
  shows "mmapExecutable h empty_StaticBinaryELF = Inr (False, disabled_parser h)"
proof -
  let ?st = "empty_StaticBinaryELF\<lparr>fileSize := st_size_of h, mapping := mmap_result h,
               mapLength := of_nat sizeof_Ehdr, elfHeader := mmap_result h\<rparr>"
  from assms(2) first_load [OF assms(1)]
  have "readElfHeader h (empty_StaticBinaryELF\<lparr>fileSize := st_size_of h,
            mapping := mmap_result h, mapLength := of_nat sizeof_Ehdr\<rparr>) = Inr (False, ?st)"
    by (auto simp: readElfHeader_def header_accepted_def Let_def)
  with assms(1) show ?thesis
    by (simp add: mmapExecutable_def host_maps_file_def disabled_parser_def
          empty_StaticBinaryELF_def)
qed

lemma grown_state:
  assumes maps: "host_maps_file h"
    and ex: "expandMapping h (programHeaders_end h)
               (empty_StaticBinaryELF\<lparr>fileSize := st_size_of h, mapping := mmap_result h,
                   mapLength := of_nat sizeof_Ehdr, elfHeader := mmap_result h\<rparr>) = (True, st1)"
  shows "mapping st1 = grown_mapping h" and "elfHeader st1 = grown_mapping h"
    and "fileSize st1 = st_size_of h" and "grown_mapping h \<noteq> MAP_FAILED"
    and "unat (mapLength st1) = max sizeof_Ehdr (unat (programHeaders_end h))"
proof -
  show "mapping st1 = grown_mapping h" and "elfHeader st1 = grown_mapping h"
    and "fileSize st1 = st_size_of h" and "grown_mapping h \<noteq> MAP_FAILED"
    using maps ex
    by (auto simp: expandMapping_def grown_mapping_def host_maps_file_def Let_def
          split: if_splits)
  have 64: "unat (of_nat sizeof_Ehdr :: 64 word) = sizeof_Ehdr"
    by (simp add: sizeof_Ehdr_def)
  show "unat (mapLength st1) = max sizeof_Ehdr (unat (programHeaders_end h))"
  proof (cases "programHeaders_end h > of_nat sizeof_Ehdr")
    case True
    then have "sizeof_Ehdr < unat (programHeaders_end h)"
      by (simp add: word_less_nat_alt 64)
    with True ex show ?thesis
      by (auto simp: expandMapping_def Let_def split: if_splits)
  next
    case False
    then have "unat (programHeaders_end h) \<le> sizeof_Ehdr"
      by (simp add: word_less_nat_alt 64)
    with False ex show ?thesis
      by (auto simp: expandMapping_def Let_def 64 split: if_splits)
  qed
qed

lemma interpreter_disables:
  assumes maps: "host_maps_file h" and acc: "header_accepted (ehdr_at h 0)"
    and tab: "programHeaders_in_file h" and fit: "addresses_fit h"
    and interp: "list_ex (\<lambda>header. p_type header = PT_INTERP) (file_programHeaders h)"
  shows "mmapExecutable h empty_StaticBinaryELF = Inr (False, disabled_parser h)"
proof -
  let ?hdr = "ehdr_at h 0"
  let ?st = "empty_StaticBinaryELF\<lparr>fileSize := st_size_of h, mapping := mmap_result h,
               mapLength := of_nat sizeof_Ehdr, elfHeader := mmap_result h\<rparr>"
  let ?start = "empty_StaticBinaryELF\<lparr>fileSize := st_size_of h, mapping := mmap_result h,
               mapLength := of_nat sizeof_Ehdr\<rparr>"
  obtain ok st1 where ex: "expandMapping h (programHeaders_end h) ?st = (ok, st1)"
    by (cases "expandMapping h (programHeaders_end h) ?st") blast
  have "\<exists>st'. readElfHeader h ?start = Inr (False, st') \<and> fileSize st' = st_size_of h"
  proof (cases ok)
    case False
    with ex have "st1 = ?st"
      by (auto dest: expandMapping_within_file(5))
    with False ex acc first_load [OF maps] show ?thesis
      unfolding readElfHeader_def
      by (simp add: Let_def header_accepted_def programHeaders_end_def)
  next
    case True
    from ex True have "expandMapping h (programHeaders_end h) ?st = (True, st1)"
      by simp
    note g = grown_state [OF maps this]
    from fit g(4) have g0: "grown_mapping h \<noteq> 0"
      and gfit: "unat (grown_mapping h) + max sizeof_Ehdr (unat (programHeaders_end h)) \<le> 2 ^ 64"
      by (simp_all add: addresses_fit_def)
    from maps g(3) have nonempty: "fileSize st1 \<noteq> 0"
      by (simp add: host_maps_file_def)
    have load1: "load (ehdr_at h) sizeof_Ehdr st1 (elfHeader st1) = Inr ?hdr"
      using g g0 nonempty by (simp add: load_def readable_def)
    have "unat (e_phnum ?hdr) < 2 ^ 16"
      using unsigned_less [of "e_phnum ?hdr"] by simp
    with tab have "unat (e_phentsize ?hdr) * unat (e_phnum ?hdr) < 2 ^ 31"
      by (simp add: programHeaders_in_file_def sizeof_Phdr_def)
    then have mul: "unat (mul_u16 (e_phentsize ?hdr) (e_phnum ?hdr)) =
        sizeof_Phdr * unat (e_phnum ?hdr)"
      using tab by (simp add: unat_mul_u16 programHeaders_in_file_def)
    have "unat (st_size_of h) < 2 ^ 64"
      using unsigned_less [of "st_size_of h"] by simp
    with tab mul have pend: "unat (programHeaders_end h) =
        unat (e_phoff ?hdr) + sizeof_Phdr * unat (e_phnum ?hdr)"
      by (simp add: programHeaders_end_def programHeaders_in_file_def
            unat_add_lem [THEN iffD1])
    have ptr: "unat (grown_mapping h + e_phoff ?hdr + of_nat idx * of_nat sizeof_Phdr) =
        unat (grown_mapping h) + unat (e_phoff ?hdr) + idx * sizeof_Phdr"
      and rd: "readable st1 (grown_mapping h + e_phoff ?hdr + of_nat idx * of_nat sizeof_Phdr)
                 sizeof_Phdr"
      if idx: "idx < unat (e_phnum ?hdr)" for idx
    proof -
      from idx have "Suc idx * sizeof_Phdr \<le> sizeof_Phdr * unat (e_phnum ?hdr)"
        by (metis Suc_leI mult.commute mult_le_mono2)
      then have le: "idx * sizeof_Phdr + sizeof_Phdr \<le> sizeof_Phdr * unat (e_phnum ?hdr)"
        by simp
      have pos: "0 < sizeof_Phdr" by (simp add: sizeof_Phdr_def)
      from le pos gfit pend
      have "unat (grown_mapping h) + unat (e_phoff ?hdr) + idx * sizeof_Phdr < 2 ^ 64"
        by simp
      then show p: "unat (grown_mapping h + e_phoff ?hdr + of_nat idx * of_nat sizeof_Phdr) =
          unat (grown_mapping h) + unat (e_phoff ?hdr) + idx * sizeof_Phdr"
        by (rule unat_ptr)
      from le pend g g0 show "readable st1
          (grown_mapping h + e_phoff ?hdr + of_nat idx * of_nat sizeof_Phdr) sizeof_Phdr"
        by (simp add: readable_def p)
    qed
    have "interpreter_loop h st1 (mapping st1 + e_phoff ?hdr) [0..<unat (e_phnum ?hdr)] =
        Inr (list_ex (\<lambda>idx. p_type (phdr_at h (offset_of st1
               (mapping st1 + e_phoff ?hdr + of_nat idx * of_nat sizeof_Phdr))) = PT_INTERP)
             [0..<unat (e_phnum ?hdr)])"
      using nonempty rd by (intro interpreter_loop_list_ex) (simp_all add: g list_all_iff)
    also have "list_ex (\<lambda>idx. p_type (phdr_at h (offset_of st1
               (mapping st1 + e_phoff ?hdr + of_nat idx * of_nat sizeof_Phdr))) = PT_INTERP)
             [0..<unat (e_phnum ?hdr)] =
        list_ex (\<lambda>header. p_type header = PT_INTERP) (file_programHeaders h)"
      by (auto simp: list_ex_iff file_programHeaders_def offset_of_def g ptr)
    finally have loop: "interpreter_loop h st1 (mapping st1 + e_phoff ?hdr)
        [0..<unat (e_phnum ?hdr)] = Inr True"
      using interp by simp
    from acc first_load [OF maps] ex True load1 loop g(3) show ?thesis
      unfolding readElfHeader_def
      by (simp add: Let_def header_accepted_def programHeaders_end_def)
  qed
  then obtain st' where r: "readElfHeader h ?start = Inr (False, st')"
    and f: "fileSize st' = st_size_of h"
    by blast
  from maps r zeroed_eq [OF f] show ?thesis
    by (simp add: mmapExecutable_def host_maps_file_def disabled_parser_def)
qed

lemmas reject_defs = bad_magic_host_def dynamic_host_def dynamic_phdr_at_def
  host_maps_file_def header_accepted_def programHeaders_in_file_def programHeaders_end_def
  grown_mapping_def addresses_fit_def file_programHeaders_def disabled_parser_def

section \<open>The ELF parser claims\<close>

text \<open>
  Claim C7. \<open>getSectionLoadAddress\<close> returns the null pointer when the parser is
  disabled (\<open>elfHeader\<close> is null). Otherwise, when the ELF header and the program headers
  are readable through the mapping, it returns the \<open>p_vaddr\<close> of the first program
  header, in table order, that has type \<open>PT_LOAD\<close> and whose range from \<open>p_vaddr\<close>
  to \<open>p_vaddr + p_memsz\<close> contains the address, and the null pointer when there is
  none. The range is closed: as long as \<open>p_vaddr + p_memsz\<close> does not exceed 64 bits,
  the test is \<open>p_vaddr \<le> address \<le> p_vaddr + p_memsz\<close> on the numbers, both ends
  included.
\<close>

theorem getSectionLoadAddress_first_load_segment:
  "(elfHeader st = 0 \<longrightarrow> getSectionLoadAddress h st a = Inr 0) \<and>
   (elfHeader st \<noteq> 0 \<and> programHeaders_readable h st \<longrightarrow>
      getSectionLoadAddress h st a =
        Inr (case find (in_load_segment a) (programHeaders h st) of
               None \<Rightarrow> 0 | Some header \<Rightarrow> p_vaddr header)) \<and>
   (unat (p_vaddr header) + unat (p_memsz header) < 2 ^ 64 \<longrightarrow>
      in_load_segment a header =
        (p_type header = PT_LOAD \<and> unat (p_vaddr header) \<le> unat a \<and>
         unat a \<le> unat (p_vaddr header) + unat (p_memsz header)))"
proof (intro conjI impI)
  assume "elfHeader st = 0"
  then show "getSectionLoadAddress h st a = Inr 0"
    by (simp add: getSectionLoadAddress_def)
next
  assume a: "elfHeader st \<noteq> 0 \<and> programHeaders_readable h st"
  then have hdr: "load (ehdr_at h) sizeof_Ehdr st (elfHeader st) = Inr (the_header h st)"
    by (simp add: programHeaders_readable_def load_readable the_header_def)
  from a have "getSectionLoadAddress_loop h st a (mapping st + e_phoff (the_header h st))
       [0..<unat (e_phnum (the_header h st))] =
     Inr (case find (in_load_segment a) (programHeaders h st) of
            None \<Rightarrow> 0 | Some header \<Rightarrow> p_vaddr header)"
    unfolding programHeaders_def programHeader_ptr_def programHeaders_readable_def
    by (intro getSectionLoadAddress_loop_find) simp_all
  with a hdr show "getSectionLoadAddress h st a =
        Inr (case find (in_load_segment a) (programHeaders h st) of
               None \<Rightarrow> 0 | Some header \<Rightarrow> p_vaddr header)"
    by (simp add: getSectionLoadAddress_def)
next
  assume "unat (p_vaddr header) + unat (p_memsz header) < 2 ^ 64"
  then have "unat (p_vaddr header + p_memsz header) = unat (p_vaddr header) + unat (p_memsz header)"
    by (simp add: unat_add_lem [THEN iffD1])
  then show "in_load_segment a header =
        (p_type header = PT_LOAD \<and> unat (p_vaddr header) \<le> unat a \<and>
         unat a \<le> unat (p_vaddr header) + unat (p_memsz header))"
    by (simp add: in_load_segment_def word_le_nat_alt)
qed

theorem getSectionLoadAddress_first_load_segment_witness:
  "elfHeader example_parser \<noteq> 0 \<and> programHeaders_readable example_host example_parser \<and>
   getSectionLoadAddress example_host example_parser 0x400000 = Inr 0x400000 \<and>
   getSectionLoadAddress example_host example_parser 0x401010 = Inr 0x400000 \<and>
   getSectionLoadAddress example_host example_parser 0x402000 = Inr 0x400000 \<and>
   getSectionLoadAddress example_host example_parser 0x402001 = Inr 0 \<and>
   getSectionLoadAddress example_host empty_StaticBinaryELF 0x401010 = Inr 0 \<and>
   unat (0x400000 :: 64 word) + unat (0x2000 :: 64 word) < 2 ^ 64 \<and>
   in_load_segment 0x402000 \<lparr>p_type = 1, p_vaddr = 0x400000, p_memsz = 0x2000\<rparr>"
proof -
  note r = getSectionLoadAddress_first_load_segment [of example_parser example_host, THEN conjunct2, THEN conjunct1, THEN mp,
      OF example_programHeaders_readable]
  have "elfHeader empty_StaticBinaryELF = 0"
    by (simp add: empty_StaticBinaryELF_def)
  with getSectionLoadAddress_first_load_segment [of empty_StaticBinaryELF example_host "0x401010"]
  have none: "getSectionLoadAddress example_host empty_StaticBinaryELF 0x401010 = Inr 0"
    by blast
  have fits: "unat (0x400000 :: 64 word) + unat (0x2000 :: 64 word) < 2 ^ 64"
    by simp
  from getSectionLoadAddress_first_load_segment
         [where header = "\<lparr>p_type = 1, p_vaddr = 0x400000, p_memsz = 0x2000\<rparr>"
            and a = "0x402000", THEN conjunct2, THEN conjunct2]
  have closed: "in_load_segment 0x402000 \<lparr>p_type = 1, p_vaddr = 0x400000, p_memsz = 0x2000\<rparr>"
    by (simp add: PT_LOAD_def)
  from none fits closed example_programHeaders_readable r [of "0x400000"] r [of "0x401010"]
    r [of "0x402000"] r [of "0x402001"]
  show ?thesis
    by (simp add: example_programHeaders in_load_segment_def PT_LOAD_def)
qed

text \<open>
  Claim C6. \<open>findSymbol\<close> returns the null pointer when there is no symbol table
  (\<open>symbolTable\<close> is null). Otherwise, when the symbol table's section header and its
  entries are readable through the mapping and the entry size is not 0, it returns the
  pointer to the first entry, in table order, whose type is \<open>STT_FUNC\<close> and whose
  range from \<open>st_value\<close> to \<open>st_value + st_size\<close> contains the address, and the
  null pointer when there is none. The range is half-open: as long as
  \<open>st_value + st_size\<close> does not exceed 64 bits, the test is
  \<open>st_value \<le> address < st_value + st_size\<close> on the numbers, and the address
  \<open>st_value + st_size\<close> never matches the symbol.
\<close>

theorem findSymbol_first_function_containing:
  "(symbolTable st = 0 \<longrightarrow> findSymbol h st a = Inr 0) \<and>
   (symbolTable st \<noteq> 0 \<and> symbols_readable h st \<longrightarrow>
      findSymbol h st a =
        Inr (case find (\<lambda>entry. function_containing a (snd entry)) (symbols h st) of
               None \<Rightarrow> 0 | Some entry \<Rightarrow> fst entry)) \<and>
   (unat (st_value symbol) + unat (st_size symbol) < 2 ^ 64 \<longrightarrow>
      function_containing a symbol =
        (ELF_ST_TYPE (st_info symbol) = STT_FUNC \<and> unat (st_value symbol) \<le> unat a \<and>
         unat a < unat (st_value symbol) + unat (st_size symbol))) \<and>
   \<not> function_containing (st_value symbol + st_size symbol) symbol"
proof (intro conjI impI)
  assume "symbolTable st = 0"
  then show "findSymbol h st a = Inr 0"
    by (simp add: findSymbol_def)
next
  assume a: "symbolTable st \<noteq> 0 \<and> symbols_readable h st"
  then have tab: "load (shdr_at h) sizeof_Shdr st (symbolTable st) = Inr (the_symbolTable h st)"
    by (simp add: symbols_readable_def load_readable the_symbolTable_def)
  from a have "findSymbol_loop h st a (mapping st + sh_offset (the_symbolTable h st))
       [0..<unat (sh_size (the_symbolTable h st) div sh_entsize (the_symbolTable h st))] =
     Inr (case find (\<lambda>entry. function_containing a (snd entry)) (symbols h st) of
            None \<Rightarrow> 0 | Some entry \<Rightarrow> fst entry)"
    unfolding symbols_def symbol_ptr_def symbols_readable_def symbol_count_def
    by (intro findSymbol_loop_find) simp_all
  with a tab show "findSymbol h st a =
        Inr (case find (\<lambda>entry. function_containing a (snd entry)) (symbols h st) of
               None \<Rightarrow> 0 | Some entry \<Rightarrow> fst entry)"
    by (simp add: findSymbol_def symbols_readable_def)
next
  assume "unat (st_value symbol) + unat (st_size symbol) < 2 ^ 64"
  then have "unat (st_value symbol + st_size symbol) = unat (st_value symbol) + unat (st_size symbol)"
    by (simp add: unat_add_lem [THEN iffD1])
  then show "function_containing a symbol =
        (ELF_ST_TYPE (st_info symbol) = STT_FUNC \<and> unat (st_value symbol) \<le> unat a \<and>
         unat a < unat (st_value symbol) + unat (st_size symbol))"
    by (simp add: function_containing_def word_le_nat_alt word_less_nat_alt)
next
  show "\<not> function_containing (st_value symbol + st_size symbol) symbol"
    by (simp add: function_containing_def)
qed

theorem findSymbol_first_function_containing_witness:
  "symbolTable example_parser \<noteq> 0 \<and> symbols_readable example_host example_parser \<and>
   findSymbol example_host example_parser 0x401000 = Inr 0x7f0000002018 \<and>
   findSymbol example_host example_parser 0x40101f = Inr 0x7f0000002018 \<and>
   findSymbol example_host example_parser 0x401020 = Inr 0 \<and>
   findSymbol example_host example_parser 0x400fff = Inr 0 \<and>
   findSymbol example_host empty_StaticBinaryELF 0x401000 = Inr 0 \<and>
   unat (0x401000 :: 64 word) + unat (0x20 :: 64 word) < 2 ^ 64 \<and>
   \<not> function_containing 0x401020
       \<lparr>st_name = 1, st_info = 0x12, st_value = 0x401000, st_size = 0x20\<rparr>"
proof -
  note r = findSymbol_first_function_containing [of example_parser example_host, THEN conjunct2, THEN conjunct1, THEN mp,
      OF example_symbols_readable]
  have "symbolTable empty_StaticBinaryELF = 0"
    by (simp add: empty_StaticBinaryELF_def)
  with findSymbol_first_function_containing [of empty_StaticBinaryELF example_host "0x401000"]
  have none: "findSymbol example_host empty_StaticBinaryELF 0x401000 = Inr 0"
    by blast
  have fits: "unat (0x401000 :: 64 word) + unat (0x20 :: 64 word) < 2 ^ 64"
    by simp
  from findSymbol_first_function_containing
         [where symbol = "\<lparr>st_name = 1, st_info = 0x12, st_value = 0x401000, st_size = 0x20\<rparr>"
            and a = "0x401020", THEN conjunct2, THEN conjunct2, THEN conjunct1]
  have half_open: "\<not> function_containing 0x401020
       \<lparr>st_name = 1, st_info = 0x12, st_value = 0x401000, st_size = 0x20\<rparr>"
    by simp
  from none fits half_open example_symbols_readable r [of "0x401000"] r [of "0x40101f"]
    r [of "0x401020"] r [of "0x400fff"]
  show ?thesis
    by (simp add: example_symbols function_containing_def ELF_ST_TYPE_def STT_FUNC_def)
qed

text \<open>
  Claim C2 fails on the code. \<open>expandMapping\<close> recomputes \<open>elfHeader\<close> from the
  new base, but \<open>findSection\<close> returns the pointer \<open>header\<close> it computed from the
  base before its call of \<open>expandMapping\<close>, and \<open>readElfHeader\<close> stores that pointer
  in \<open>symbolTable\<close>. On \<open>moving_host\<close>, where \<open>mremap\<close> moves the mapping when
  the symbol table's bytes at offset 8192 are mapped in, the constructor leaves
  \<open>symbolTable\<close> pointing into the old mapping; \<open>findSymbol\<close> then dereferences it
  outside the mapping. With the pointer recomputed from the new base the same query
  finds the function. (That a mapping never grows beyond the file's size is
  \<open>expandMapping_within_file\<close>.)
\<close>

theorem moved_mapping_leaves_symbolTable_stale:
  "new_StaticBinaryELF moving_host =
     Inr \<lparr>mapLength = 8256, fileSize = 8256, mapping = 0x7f0000100000,
          elfHeader = 0x7f0000100000, symbolTable = 0x7f00000000C0,
          stringTable = 0x7f0000100100\<rparr> \<and>
   \<not> readable \<lparr>mapLength = 8256, fileSize = 8256, mapping = 0x7f0000100000,
          elfHeader = 0x7f0000100000, symbolTable = 0x7f00000000C0,
          stringTable = 0x7f0000100100\<rparr> 0x7f00000000C0 sizeof_Shdr \<and>
   findSymbol moving_host
     \<lparr>mapLength = 8256, fileSize = 8256, mapping = 0x7f0000100000,
      elfHeader = 0x7f0000100000, symbolTable = 0x7f00000000C0,
      stringTable = 0x7f0000100100\<rparr> 0x401010 = Inl OutOfMapping \<and>
   findSymbol moving_host
     \<lparr>mapLength = 8256, fileSize = 8256, mapping = 0x7f0000100000,
      elfHeader = 0x7f0000100000, symbolTable = 0x7f0000100000 + 0xC0,
      stringTable = 0x7f0000100100\<rparr> 0x401010 = Inr (0x7f0000100000 + 0x2018)"
proof (intro conjI)
  show "new_StaticBinaryELF moving_host =
     Inr \<lparr>mapLength = 8256, fileSize = 8256, mapping = 0x7f0000100000,
          elfHeader = 0x7f0000100000, symbolTable = 0x7f00000000C0,
          stringTable = 0x7f0000100100\<rparr>"
    by (simp add: new_StaticBinaryELF_def mmapExecutable_def readElfHeader_def
        readElfHeader_sections_def findSection_def expandMapping_def load_def readable_def
        mul_u16_def empty_StaticBinaryELF_def elf_consts example_defs moving_host_def
        Let_def upt_small)
  show "\<not> readable \<lparr>mapLength = 8256, fileSize = 8256, mapping = 0x7f0000100000,
          elfHeader = 0x7f0000100000, symbolTable = 0x7f00000000C0,
          stringTable = 0x7f0000100100\<rparr> 0x7f00000000C0 sizeof_Shdr"
    by (simp add: readable_def)
  show "findSymbol moving_host
     \<lparr>mapLength = 8256, fileSize = 8256, mapping = 0x7f0000100000,
      elfHeader = 0x7f0000100000, symbolTable = 0x7f00000000C0,
      stringTable = 0x7f0000100100\<rparr> 0x401010 = Inl OutOfMapping"
    by (simp add: findSymbol_def load_def readable_def)
  show "findSymbol moving_host
     \<lparr>mapLength = 8256, fileSize = 8256, mapping = 0x7f0000100000,
      elfHeader = 0x7f0000100000, symbolTable = 0x7f0000100000 + 0xC0,
      stringTable = 0x7f0000100100\<rparr> 0x401010 = Inr (0x7f0000100000 + 0x2018)"
    by (simp add: findSymbol_def load_def readable_def elf_consts example_defs
          moving_host_def upt_small)
qed

text \<open>
  Claim C3, as amended. When the first section of the requested type that
  \<open>findSection\<close> looks at (index \<open>e_shstrndx\<close> is passed over) is corrupt,
  \<open>findSection\<close> returns the null pointer at once and leaves the parser as it was: the
  section is not selected, and neither is any later section of that type. Header parsing
  goes on: a corrupt symbol table leaves \<open>symbolTable\<close> null while the string table is
  still searched for from the start of the table, a corrupt string table leaves
  \<open>stringTable\<close> null, and \<open>readElfHeader\<close> returns \<open>true\<close> in both cases.
\<close>

theorem corrupt_first_section_is_not_found:
  "(first_of_type_corrupt h st sectionType k \<longrightarrow>
      findSection h sectionType st = Inr (0, st)) \<and>
   (first_of_type_corrupt h st SHT_SYMTAB k \<longrightarrow>
      readElfHeader_sections h st =
        (case findSection h SHT_STRTAB (st\<lparr>symbolTable := 0\<rparr>) of
           Inl e \<Rightarrow> Inl e
         | Inr (strtab, st') \<Rightarrow> Inr (True, st'\<lparr>stringTable := strtab\<rparr>))) \<and>
   (findSection h SHT_SYMTAB st = Inr (symtab, st1) \<and>
    first_of_type_corrupt h (st1\<lparr>symbolTable := symtab\<rparr>) SHT_STRTAB k \<longrightarrow>
      readElfHeader_sections h st =
        Inr (True, st1\<lparr>symbolTable := symtab, stringTable := 0\<rparr>))"
  by (auto simp: findSection_corrupt readElfHeader_sections_def)

theorem corrupt_first_section_is_not_found_witness:
  "first_of_type_corrupt corrupt_host
     \<lparr>mapLength = 384, fileSize = 8256, mapping = 0x7f0000000000,
      elfHeader = 0x7f0000000000, symbolTable = 0, stringTable = 0\<rparr> SHT_SYMTAB 1 \<and>
   findSection corrupt_host SHT_SYMTAB
     \<lparr>mapLength = 384, fileSize = 8256, mapping = 0x7f0000000000,
      elfHeader = 0x7f0000000000, symbolTable = 0, stringTable = 0\<rparr> =
     Inr (0, \<lparr>mapLength = 384, fileSize = 8256, mapping = 0x7f0000000000,
              elfHeader = 0x7f0000000000, symbolTable = 0, stringTable = 0\<rparr>) \<and>
   readElfHeader_sections corrupt_host
     \<lparr>mapLength = 384, fileSize = 8256, mapping = 0x7f0000000000,
      elfHeader = 0x7f0000000000, symbolTable = 0, stringTable = 0\<rparr> =
     Inr (True, \<lparr>mapLength = 8256, fileSize = 8256, mapping = 0x7f0000000000,
                 elfHeader = 0x7f0000000000, symbolTable = 0,
                 stringTable = 0x7f0000000140\<rparr>)"
proof -
  have hyp: "first_of_type_corrupt corrupt_host
     \<lparr>mapLength = 384, fileSize = 8256, mapping = 0x7f0000000000,
      elfHeader = 0x7f0000000000, symbolTable = 0, stringTable = 0\<rparr> SHT_SYMTAB 1"
    by (simp add: first_of_type_corrupt_def section_ptr_def the_section_def the_header_def
          offset_of_def readable_def corrupt_section_def elf_consts example_defs corrupt_defs
          upt_small)
  have strtab: "findSection corrupt_host SHT_STRTAB
     \<lparr>mapLength = 384, fileSize = 8256, mapping = 0x7f0000000000,
      elfHeader = 0x7f0000000000, symbolTable = 0, stringTable = 0\<rparr> =
     Inr (0x7f0000000140,
          \<lparr>mapLength = 8256, fileSize = 8256, mapping = 0x7f0000000000,
           elfHeader = 0x7f0000000000, symbolTable = 0, stringTable = 0\<rparr>)"
    by (simp add: findSection_def expandMapping_def load_def readable_def
          elf_consts example_defs corrupt_defs Let_def upt_4)
  from corrupt_first_section_is_not_found [of corrupt_host _ SHT_SYMTAB 1, THEN conjunct1, THEN mp, OF hyp]
    corrupt_first_section_is_not_found [of corrupt_host _ SHT_SYMTAB 1, THEN conjunct2, THEN conjunct1, THEN mp, OF hyp]
    hyp strtab
  show ?thesis by simp
qed


text \<open>
  Claim C3 as stated fails: on \<open>corrupt_host\<close> the well-formed symbol table in
  section 2 comes after the corrupt one in section 1 and is not found; the parser is
  built with a null \<open>symbolTable\<close>, and with the string table of section 3.
\<close>

theorem corrupt_symtab_hides_later_symtab:
  "new_StaticBinaryELF corrupt_host =
     Inr \<lparr>mapLength = 8256, fileSize = 8256, mapping = 0x7f0000000000,
          elfHeader = 0x7f0000000000, symbolTable = 0, stringTable = 0x7f0000000140\<rparr> \<and>
   shdr_at corrupt_host 256 =
     \<lparr>sh_type = SHT_SYMTAB, sh_offset = 8192, sh_size = 48, sh_entsize = 24\<rparr> \<and>
   \<not> corrupt_section (shdr_at corrupt_host 256)"
  by (simp add: new_StaticBinaryELF_def mmapExecutable_def readElfHeader_def
        readElfHeader_sections_def findSection_def expandMapping_def load_def readable_def
        mul_u16_def empty_StaticBinaryELF_def elf_consts example_defs corrupt_defs
        corrupt_section_def Let_def upt_small upt_4)


text \<open>
  Claim C4. Whenever \<open>mmapExecutable\<close> returns \<open>false\<close> on a new parser, the
  parser is disabled: \<open>mapping\<close>, \<open>elfHeader\<close>, \<open>symbolTable\<close> and
  \<open>stringTable\<close> are null, and \<open>getSectionLoadAddress\<close> and \<open>findSymbol\<close>
  return the null pointer for every address. It does return \<open>false\<close>, leaving
  \<open>disabled_parser\<close>, when the file is mapped and its header fails the validation
  (magic bytes, class, type, version or header size), and when the header is valid and
  one of the program headers in the file has type \<open>PT_INTERP\<close>.
\<close>

theorem failed_validation_disables_parser:
  "(mmapExecutable h empty_StaticBinaryELF = Inr (False, st) \<longrightarrow>
      mapping st = 0 \<and> elfHeader st = 0 \<and> symbolTable st = 0 \<and> stringTable st = 0 \<and>
      getSectionLoadAddress h st a = Inr 0 \<and> findSymbol h st a = Inr 0) \<and>
   (host_maps_file h \<and> \<not> header_accepted (ehdr_at h 0) \<longrightarrow>
      mmapExecutable h empty_StaticBinaryELF = Inr (False, disabled_parser h)) \<and>
   (host_maps_file h \<and> header_accepted (ehdr_at h 0) \<and> programHeaders_in_file h \<and>
    addresses_fit h \<and>
    list_ex (\<lambda>header. p_type header = PT_INTERP) (file_programHeaders h) \<longrightarrow>
      mmapExecutable h empty_StaticBinaryELF = Inr (False, disabled_parser h))"
  using failed_mmapExecutable_disabled [of h st] disabled_queries [of st h a]
    invalid_header_disables [of h] interpreter_disables [of h]
  by blast

theorem failed_validation_disables_parser_witness:
  "host_maps_file bad_magic_host \<and> \<not> header_accepted (ehdr_at bad_magic_host 0) \<and>
   mmapExecutable bad_magic_host empty_StaticBinaryELF =
     Inr (False, \<lparr>mapLength = 0, fileSize = 8256, mapping = 0, elfHeader = 0,
                  symbolTable = 0, stringTable = 0\<rparr>) \<and>
   getSectionLoadAddress bad_magic_host
     \<lparr>mapLength = 0, fileSize = 8256, mapping = 0, elfHeader = 0,
      symbolTable = 0, stringTable = 0\<rparr> 0x401010 = Inr 0 \<and>
   findSymbol bad_magic_host
     \<lparr>mapLength = 0, fileSize = 8256, mapping = 0, elfHeader = 0,
      symbolTable = 0, stringTable = 0\<rparr> 0x401010 = Inr 0 \<and>
   host_maps_file dynamic_host \<and> header_accepted (ehdr_at dynamic_host 0) \<and>
   programHeaders_in_file dynamic_host \<and> addresses_fit dynamic_host \<and>
   list_ex (\<lambda>header. p_type header = PT_INTERP) (file_programHeaders dynamic_host) \<and>
   mmapExecutable dynamic_host empty_StaticBinaryELF =
     Inr (False, \<lparr>mapLength = 0, fileSize = 8256, mapping = 0, elfHeader = 0,
                  symbolTable = 0, stringTable = 0\<rparr>)"
proof -
  have bad: "host_maps_file bad_magic_host \<and> \<not> header_accepted (ehdr_at bad_magic_host 0)"
    by (simp add: reject_defs example_defs elf_consts)
  have dyn: "host_maps_file dynamic_host \<and> header_accepted (ehdr_at dynamic_host 0) \<and>
      programHeaders_in_file dynamic_host \<and> addresses_fit dynamic_host \<and>
      list_ex (\<lambda>header. p_type header = PT_INTERP) (file_programHeaders dynamic_host)"
    by (simp add: reject_defs example_defs elf_consts mul_u16_def upt_small)
  have d1: "disabled_parser bad_magic_host =
      \<lparr>mapLength = 0, fileSize = 8256, mapping = 0, elfHeader = 0,
       symbolTable = 0, stringTable = 0\<rparr>"
    and d2: "disabled_parser dynamic_host =
      \<lparr>mapLength = 0, fileSize = 8256, mapping = 0, elfHeader = 0,
       symbolTable = 0, stringTable = 0\<rparr>"
    by (simp_all add: reject_defs example_defs empty_StaticBinaryELF_def)
  note c = failed_validation_disables_parser [of bad_magic_host
      "\<lparr>mapLength = 0, fileSize = 8256, mapping = 0, elfHeader = 0,
        symbolTable = 0, stringTable = 0\<rparr>" "0x401010"]
  from c bad have run1: "mmapExecutable bad_magic_host empty_StaticBinaryELF =
     Inr (False, \<lparr>mapLength = 0, fileSize = 8256, mapping = 0, elfHeader = 0,
                  symbolTable = 0, stringTable = 0\<rparr>)"
    unfolding d1 by blast
  with c have q: "getSectionLoadAddress bad_magic_host
     \<lparr>mapLength = 0, fileSize = 8256, mapping = 0, elfHeader = 0,
      symbolTable = 0, stringTable = 0\<rparr> 0x401010 = Inr 0 \<and>
   findSymbol bad_magic_host
     \<lparr>mapLength = 0, fileSize = 8256, mapping = 0, elfHeader = 0,
      symbolTable = 0, stringTable = 0\<rparr> 0x401010 = Inr 0"
    by blast
  from failed_validation_disables_parser [of dynamic_host] dyn have run2: "mmapExecutable dynamic_host empty_StaticBinaryELF =
     Inr (False, \<lparr>mapLength = 0, fileSize = 8256, mapping = 0, elfHeader = 0,
                  symbolTable = 0, stringTable = 0\<rparr>)"
    unfolding d2 by blast
  from bad dyn run1 q run2 show ?thesis by blast
qed


end
